theory Spec2Isabelle
  imports Complex_Main
begin

section \<open>Python values, strings and numbers\<close>

text \<open>
  The scripts of this repository are Python. The functions verified here live in
  \<^verbatim>\<open>sf_to_elasticsearch.py\<close>: \<^verbatim>\<open>extract_opportunity_id\<close>,
  \<^verbatim>\<open>get_currency_conversion_rates\<close>, \<^verbatim>\<open>convert_currency_amount\<close> and
  \<^verbatim>\<open>query_opportunity_data\<close>.

  Conventions of the embedding:
  \<^item> a Python \<^verbatim>\<open>str\<close> is a \<^typ>\<open>string\<close>; the models of \<^verbatim>\<open>upper\<close>, \<^verbatim>\<open>strip\<close> and of
    the character class \<^verbatim>\<open>[A-Za-z0-9]\<close> are the ASCII ones;
  \<^item> a Python \<^verbatim>\<open>float\<close> is an exact rational (\<^typ>\<open>rat\<close>): the products, quotients and
    roundings below are the mathematical ones, and the representation error of binary
    floating point is not part of the model;
  \<^item> \<^verbatim>\<open>None\<close> is \<^term>\<open>None\<close> of an option type where an argument may be absent;
  \<^item> a \<^verbatim>\<open>dict\<close> that is only read is a map; a \<^verbatim>\<open>dict\<close> that is iterated over is the
    list of its items in insertion order;
  \<^item> a raised exception is the \<^term>\<open>Inl\<close> of a sum, carrying the text \<^verbatim>\<open>str(e)\<close>.
\<close>

datatype py_value =
    PNone
  | PBool bool
  | PNum rat
  | PStr string
  | PList "py_value list"
  | PDict "(string \<times> py_value) list"

text \<open>Truth value of a Python object, as \<^verbatim>\<open>if x\<close>, \<^verbatim>\<open>not x\<close> and \<^verbatim>\<open>bool(x)\<close> use it.\<close>

fun truthy :: "py_value \<Rightarrow> bool" where
  "truthy PNone = False"
| "truthy (PBool b) = b"
| "truthy (PNum r) = (r \<noteq> 0)"
| "truthy (PStr s) = (s \<noteq> [])"
| "truthy (PList xs) = (xs \<noteq> [])"
| "truthy (PDict kvs) = (kvs \<noteq> [])"

text \<open>An exception is represented by its text.\<close>

type_synonym py_exn = string

subsection \<open>\<^verbatim>\<open>str.upper\<close> and \<^verbatim>\<open>str.strip\<close>\<close>

definition upper_char :: "char \<Rightarrow> char" where
  "upper_char c =
     (let n = (of_char c :: nat)
      in if 97 \<le> n \<and> n \<le> 122 then char_of (n - 32) else c)"

definition upper :: "string \<Rightarrow> string" where
  "upper s = map upper_char s"

text \<open>
  The characters \<^verbatim>\<open>str.strip()\<close> removes: tab, line feed, vertical tab, form feed,
  carriage return, the four separators \<^verbatim>\<open>\x1c\<close> to \<^verbatim>\<open>\x1f\<close>, and the space.
\<close>

definition is_space :: "char \<Rightarrow> bool" where
  "is_space c =
     (let n = (of_char c :: nat)
      in (9 \<le> n \<and> n \<le> 13) \<or> (28 \<le> n \<and> n \<le> 32))"

definition strip :: "string \<Rightarrow> string" where
  "strip s = rev (dropWhile is_space (rev (dropWhile is_space s)))"

subsection \<open>\<^verbatim>\<open>round(x, ndigits)\<close>\<close>

text \<open>
  Python rounds to the nearest multiple of \<open>10\<^sup>-\<^sup>n\<close>, a tie going to the even
  neighbour.
\<close>

definition round_half_even :: "rat \<Rightarrow> int" where
  "round_half_even x =
     (let f = \<lfloor>x\<rfloor>; d = x - of_int f
      in if d < 1 / 2 then f
         else if 1 / 2 < d then f + 1
         else if even f then f else f + 1)"

definition py_round :: "rat \<Rightarrow> nat \<Rightarrow> rat" where
  "py_round x n = of_int (round_half_even (x * 10 ^ n)) / 10 ^ n"

text \<open>True division of floats: a zero divisor raises \<^verbatim>\<open>ZeroDivisionError\<close>.\<close>

definition py_truediv :: "rat \<Rightarrow> rat \<Rightarrow> py_exn + rat" where
  "py_truediv a b = (if b = 0 then Inl ''float division by zero'' else Inr (a / b))"

section \<open>The currency normalizer: \<^verbatim>\<open>convert_currency_amount\<close>\<close>

text \<open>The result dictionary of \<^verbatim>\<open>convert_currency_amount\<close>, with its seven keys.\<close>

record conversion_result =
  original_amount :: "rat option"
  original_currency :: "string option"
  converted_amount :: "rat option"
  converted_currency :: "string option"
  conversion_rate :: rat
  conversion_successful :: bool
  conversion_note :: "string option"

type_synonym rate_table = "string \<rightharpoonup> rat"

text \<open>\<^verbatim>\<open>not amount or amount == 0\<close>: the amount is \<^verbatim>\<open>None\<close> or zero.\<close>

definition amount_missing :: "rat option \<Rightarrow> bool" where
  "amount_missing amount = (case amount of None \<Rightarrow> True | Some a \<Rightarrow> a = 0)"

text \<open>\<^verbatim>\<open>not currency\<close>: the code is \<^verbatim>\<open>None\<close> or the empty string.\<close>

definition currency_missing :: "string option \<Rightarrow> bool" where
  "currency_missing c = (case c of None \<Rightarrow> True | Some s \<Rightarrow> s = [])"

text \<open>\<^verbatim>\<open>currency.upper().strip()\<close>; it is only reached with a code that is present.\<close>

definition normalize_currency :: "string option \<Rightarrow> string" where
  "normalize_currency c = (case c of None \<Rightarrow> [] | Some s \<Rightarrow> strip (upper s))"

text \<open>
  The body of the \<^verbatim>\<open>try\<close> block: the rate that is applied, and the product before it
  is rounded. \<^verbatim>\<open>conversion_rates.get(to_currency, 1.0)\<close> supplies \<open>1.0\<close> for a target
  that the table does not have.
\<close>

definition calculate_conversion ::
  "rat \<Rightarrow> rat \<Rightarrow> string \<Rightarrow> rate_table \<Rightarrow> py_exn + (rat \<times> rat)" where
  "calculate_conversion amount from_rate to_currency conversion_rates =
     (if to_currency = ''USD'' then
        Inr (from_rate, amount * from_rate)
      else
        let usd_rate = from_rate;
            to_rate = (case conversion_rates to_currency of None \<Rightarrow> 1 | Some r \<Rightarrow> r)
        in case py_truediv usd_rate to_rate of
             Inl e \<Rightarrow> Inl e
           | Inr rate \<Rightarrow> Inr (rate, amount * rate))"

definition convert_currency_amount ::
  "rat option \<Rightarrow> string option \<Rightarrow> string option \<Rightarrow> rate_table \<Rightarrow> conversion_result" where
  "convert_currency_amount amount from_currency to_currency conversion_rates =
     (let result = \<lparr> original_amount = amount,
                      original_currency = from_currency,
                      converted_amount = amount,
                      converted_currency = to_currency,
                      conversion_rate = 1,
                      conversion_successful = False,
                      conversion_note = None \<rparr>
      in if amount_missing amount then
           result\<lparr> conversion_successful := True,
                   converted_amount := Some 0,
                   conversion_note := Some ''Zero amount'' \<rparr>
         else if currency_missing from_currency \<or> currency_missing to_currency then
           result\<lparr> conversion_note := Some ''Missing currency information'' \<rparr>
         else
           let from_c = normalize_currency from_currency;
               to_c = normalize_currency to_currency
           in if from_c = to_c then
                result\<lparr> conversion_successful := True,
                        conversion_note := Some ''Same currency'' \<rparr>
              else
                case conversion_rates from_c of
                  None \<Rightarrow>
                    result\<lparr> conversion_note :=
                              Some (''Conversion rate not available for '' @ from_c) \<rparr>
                | Some from_rate \<Rightarrow>
                    (case amount of
                       None \<Rightarrow> result
                     | Some a \<Rightarrow>
                        (case calculate_conversion a from_rate to_c conversion_rates of
                           Inl e \<Rightarrow>
                             result\<lparr> conversion_note :=
                                       Some (''Conversion calculation error: '' @ e) \<rparr>
                         | Inr (rate, converted) \<Rightarrow>
                             result\<lparr> converted_amount := Some (py_round converted 2),
                                     conversion_rate := py_round rate 6,
                                     conversion_successful := True,
                                     conversion_note := Some ''Converted via API rates'' \<rparr>)))"

text \<open>
  For the statements below: the rate the \<^verbatim>\<open>try\<close> block applies, before it is rounded
  for storage. It is \<^verbatim>\<open>conversion_rates[from_currency]\<close> for the target \<^verbatim>\<open>USD\<close>, and
  that rate divided by \<^verbatim>\<open>conversion_rates.get(to_currency, 1.0)\<close> for any other target.
\<close>

definition applied_rate :: "rat \<Rightarrow> string \<Rightarrow> rate_table \<Rightarrow> rat" where
  "applied_rate from_rate to_currency conversion_rates =
     (if to_currency = ''USD'' then from_rate
      else from_rate / (case conversion_rates to_currency of None \<Rightarrow> 1 | Some r \<Rightarrow> r))"

section \<open>The currency normalizer: \<^verbatim>\<open>get_currency_conversion_rates\<close>\<close>

text \<open>
  The static table of the function, \<^verbatim>\<open>fallback_rates\<close>: units of USD for one unit of
  each currency, in the order of the dictionary literal.
\<close>

definition fallback_rates :: "(string \<times> rat) list" where
  "fallback_rates =
     [(''USD'', 1),
      (''EUR'', 118 / 100),
      (''GBP'', 137 / 100),
      (''JPY'', 67 / 10000),
      (''CAD'', 74 / 100),
      (''AUD'', 67 / 100),
      (''CHF'', 114 / 100),
      (''CNY'', 14 / 100),
      (''INR'', 12 / 1000),
      (''BRL'', 20 / 100)]"

text \<open>\<^verbatim>\<open>fallback_rates.get(currency, 1.0)\<close>\<close>

definition fallback_get :: "string \<Rightarrow> rat" where
  "fallback_get currency = (case map_of fallback_rates currency of None \<Rightarrow> 1 | Some r \<Rightarrow> r)"

text \<open>
  What \<^verbatim>\<open>urlopen\<close>, \<^verbatim>\<open>read\<close>, \<^verbatim>\<open>decode\<close> and \<^verbatim>\<open>json.loads\<close> do is outside the
  program: the request fails with a \<^verbatim>\<open>URLError\<close>, something else raises (a timeout of
  the socket, bytes that are not UTF-8, a body that is not JSON), or a JSON value arrives.
\<close>

datatype fetch_outcome =
    UrlError py_exn
  | FetchException py_exn
  | FetchedJson py_value

text \<open>\<^verbatim>\<open>d.get(k, default)\<close> on the items of a dictionary.\<close>

definition dict_get :: "(string \<times> py_value) list \<Rightarrow> string \<Rightarrow> py_value \<Rightarrow> py_value" where
  "dict_get kvs k dflt = (case map_of kvs k of None \<Rightarrow> dflt | Some v \<Rightarrow> v)"

text \<open>
  \<^verbatim>\<open>rate > 0\<close> on a JSON value: numbers compare, \<^verbatim>\<open>True\<close> and \<^verbatim>\<open>False\<close> count as 1 and
  0, and any other value raises \<^verbatim>\<open>TypeError\<close>.
\<close>

fun number_of :: "py_value \<Rightarrow> py_exn + rat" where
  "number_of (PNum r) = Inr r"
| "number_of (PBool b) = Inr (if b then 1 else 0)"
| "number_of PNone = Inl ''not supported between instances of NoneType and int''"
| "number_of (PStr s) = Inl ''not supported between instances of str and int''"
| "number_of (PList xs) = Inl ''not supported between instances of list and int''"
| "number_of (PDict kvs) = Inl ''not supported between instances of dict and int''"

text \<open>
  The loop \<^verbatim>\<open>for currency, rate in rates.items()\<close>, with the dictionary
  \<^verbatim>\<open>conversion_rates\<close> as accumulator.
\<close>

fun invert_rates ::
  "string \<Rightarrow> (string \<times> py_value) list \<Rightarrow> rate_table \<Rightarrow> py_exn + rate_table" where
  "invert_rates base_currency [] conversion_rates = Inr conversion_rates"
| "invert_rates base_currency ((currency, rate) # items) conversion_rates =
     (case number_of rate of
        Inl e \<Rightarrow> Inl e
      | Inr r \<Rightarrow>
          if 0 < r then
            (if currency \<noteq> base_currency then
               (case py_truediv 1 r of
                  Inl e \<Rightarrow> Inl e
                | Inr inverted \<Rightarrow>
                    invert_rates base_currency items (conversion_rates(currency \<mapsto> inverted)))
             else invert_rates base_currency items (conversion_rates(currency \<mapsto> 1)))
          else
            invert_rates base_currency items
              (conversion_rates(currency \<mapsto> fallback_get currency)))"

text \<open>
  The body of the \<^verbatim>\<open>try\<close> block. \<^term>\<open>Inr (Some t)\<close> is the \<^verbatim>\<open>return\<close> inside the
  block; \<^term>\<open>Inr None\<close> is the block left without a return, when the test on
  \<^verbatim>\<open>success\<close> and \<^verbatim>\<open>rates\<close> is false; \<^term>\<open>Inl e\<close> is an exception.
\<close>

definition fetch_live_rates :: "string \<Rightarrow> fetch_outcome \<Rightarrow> py_exn + rate_table option" where
  "fetch_live_rates base_currency outcome =
     (case outcome of
        UrlError e \<Rightarrow> Inl e
      | FetchException e \<Rightarrow> Inl e
      | FetchedJson data \<Rightarrow>
          (case data of
             PDict kvs \<Rightarrow>
               if truthy (dict_get kvs ''success'' (PBool False)) \<and> map_of kvs ''rates'' \<noteq> None
               then
                 (case dict_get kvs ''rates'' PNone of
                    PDict rates \<Rightarrow>
                      (case invert_rates base_currency rates Map.empty of
                         Inl e \<Rightarrow> Inl e
                       | Inr conversion_rates \<Rightarrow>
                           Inr (Some (conversion_rates(base_currency \<mapsto> 1))))
                  | _ \<Rightarrow> Inl ''object has no attribute items'')
               else Inr None
           | _ \<Rightarrow> Inl ''object has no attribute get''))"

text \<open>
  The loop \<^verbatim>\<open>for currency, usd_rate in fallback_rates.items()\<close> of the fallback path.
\<close>

fun rescale_rates :: "rat \<Rightarrow> (string \<times> rat) list \<Rightarrow> rate_table \<Rightarrow> py_exn + rate_table" where
  "rescale_rates base_rate [] conversion_rates = Inr conversion_rates"
| "rescale_rates base_rate ((currency, usd_rate) # items) conversion_rates =
     (case py_truediv usd_rate base_rate of
        Inl e \<Rightarrow> Inl e
      | Inr r \<Rightarrow> rescale_rates base_rate items (conversion_rates(currency \<mapsto> r)))"

text \<open>The code after the \<^verbatim>\<open>try\<close> statement; no handler covers it.\<close>

definition use_fallback_rates :: "string \<Rightarrow> py_exn + rate_table" where
  "use_fallback_rates base_currency =
     (if base_currency \<noteq> ''USD'' then
        let base_rate = fallback_get base_currency
        in rescale_rates base_rate fallback_rates Map.empty
      else Inr (map_of fallback_rates))"

text \<open>
  Both handlers (\<^verbatim>\<open>URLError\<close> and \<^verbatim>\<open>Exception\<close>) log a warning and fall through to
  the fallback path, as does a block left without a return.
\<close>

definition get_currency_conversion_rates :: "string \<Rightarrow> fetch_outcome \<Rightarrow> py_exn + rate_table" where
  "get_currency_conversion_rates base_currency outcome =
     (case fetch_live_rates base_currency outcome of
        Inr (Some conversion_rates) \<Rightarrow> Inr conversion_rates
      | Inr None \<Rightarrow> use_fallback_rates base_currency
      | Inl e \<Rightarrow> use_fallback_rates base_currency)"

section \<open>The ID extractor: \<^verbatim>\<open>extract_opportunity_id\<close>\<close>

text \<open>The character class \<^verbatim>\<open>[A-Za-z0-9]\<close>.\<close>

definition is_alnum :: "char \<Rightarrow> bool" where
  "is_alnum c =
     (let n = (of_char c :: nat)
      in (48 \<le> n \<and> n \<le> 57) \<or> (65 \<le> n \<and> n \<le> 90) \<or> (97 \<le> n \<and> n \<le> 122))"

text \<open>
  Each of the three patterns is a literal followed by one greedy, bounded repetition of
  the character class, and nothing follows the repetition. A match that starts at a given
  position therefore takes the literal and then the longest run of class characters, cut
  at the upper bound; it exists when the literal is there and the run reaches the lower
  bound. \<^term>\<open>match_here\<close> returns that run.
\<close>

definition match_here :: "string \<Rightarrow> nat \<Rightarrow> nat \<Rightarrow> string \<Rightarrow> string option" where
  "match_here literal lo hi s =
     (if take (length literal) s = literal then
        let run = take hi (takeWhile is_alnum (drop (length literal) s))
        in if lo \<le> length run then Some run else None
      else None)"

text \<open>
  \<^verbatim>\<open>re.search\<close> scans the start positions from left to right and returns the first
  match.
\<close>

fun re_search :: "(string \<Rightarrow> string option) \<Rightarrow> string \<Rightarrow> string option" where
  "re_search m [] = m []"
| "re_search m (c # cs) =
     (case m (c # cs) of Some r \<Rightarrow> Some r | None \<Rightarrow> re_search m cs)"

text \<open>
  The three entries of \<^verbatim>\<open>patterns\<close>. The first has no group, so the candidate is the
  whole match, \<^verbatim>\<open>match.group(0)\<close>; the other two have one group, and the candidate is
  \<^verbatim>\<open>match.group(1)\<close>.
\<close>

definition standard_pattern :: "string \<Rightarrow> string option" where
  "standard_pattern s = map_option (\<lambda>run. ''006'' @ run) (match_here ''006'' 12 15 s)"

definition url_path_pattern :: "string \<Rightarrow> string option" where
  "url_path_pattern s = match_here ''/Opportunity/'' 15 18 s"

definition url_encoded_pattern :: "string \<Rightarrow> string option" where
  "url_encoded_pattern s = match_here ''Opportunity%2F'' 15 18 s"

text \<open>
  The loop over the patterns: the first candidate that starts with \<^verbatim>\<open>006\<close> is
  returned, and \<^verbatim>\<open>None\<close> when the patterns are used up.
\<close>

fun first_opportunity_id :: "(string \<Rightarrow> string option) list \<Rightarrow> string \<Rightarrow> string option" where
  "first_opportunity_id [] url = None"
| "first_opportunity_id (pattern # patterns) url =
     (case re_search pattern url of
        Some opportunity_id \<Rightarrow>
          if take 3 opportunity_id = ''006'' then Some opportunity_id
          else first_opportunity_id patterns url
      | None \<Rightarrow> first_opportunity_id patterns url)"

definition extract_opportunity_id :: "string \<Rightarrow> string option" where
  "extract_opportunity_id url =
     first_opportunity_id [standard_pattern, url_path_pattern, url_encoded_pattern] url"

text \<open>
  The words of the specification, for comparison with the code: at every occurrence of the
  prefix \<^verbatim>\<open>006\<close> in the input, the prefix together with the alphanumeric characters
  that follow it has a total length outside the inclusive bounds 15 and 18. An input
  without the prefix satisfies this trivially.
\<close>

definition spec_no_valid_id :: "string \<Rightarrow> bool" where
  "spec_no_valid_id url =
     list_all
       (\<lambda>i. take 3 (drop i url) = ''006'' \<longrightarrow>
          (let total = 3 + length (takeWhile is_alnum (drop (i + 3) url))
           in total < 15 \<or> 18 < total))
       [0 ..< length url]"

text \<open>
  For the statements below: at every occurrence of the prefix \<^verbatim>\<open>006\<close> in the input,
  fewer than 12 alphanumeric characters follow the prefix, so that the prefix and its run
  are shorter than 15 characters. An input without the prefix satisfies this trivially.
\<close>

definition prefix_runs_too_short :: "string \<Rightarrow> bool" where
  "prefix_runs_too_short url =
     list_all
       (\<lambda>i. take 3 (drop i url) = ''006'' \<longrightarrow>
          length (takeWhile is_alnum (drop (i + 3) url)) < 12)
       [0 ..< length url]"

section \<open>The record mapper: \<^verbatim>\<open>query_opportunity_data\<close>\<close>

text \<open>
  An output document is a dictionary literal: the list of its items in the order of the
  source.
\<close>

type_synonym document = "(string \<times> py_value) list"

definition option_value :: "('a \<Rightarrow> py_value) \<Rightarrow> 'a option \<Rightarrow> py_value" where
  "option_value f x = (case x of None \<Rightarrow> PNone | Some v \<Rightarrow> f v)"

text \<open>
  What \<^verbatim>\<open>sf.query\<close> does is outside the program: it raises, or it returns a dictionary
  with the number of rows and the rows, each row a dictionary.
\<close>

record query_result =
  totalSize :: nat
  records :: "(string \<times> py_value) list list"

datatype query_outcome =
    QueryRaised py_exn
  | QueryReturned query_result

text \<open>Sequencing of steps that may raise: the first exception ends the block.\<close>

definition and_then :: "py_exn + 'a \<Rightarrow> ('a \<Rightarrow> py_exn + 'b) \<Rightarrow> py_exn + 'b" where
  "and_then r f = (case r of Inl e \<Rightarrow> Inl e | Inr v \<Rightarrow> f v)"

text \<open>\<^verbatim>\<open>d[k]\<close> on a dictionary: a missing key raises \<^verbatim>\<open>KeyError\<close>.\<close>

definition dict_item :: "(string \<times> py_value) list \<Rightarrow> string \<Rightarrow> py_exn + py_value" where
  "dict_item kvs k =
     (case map_of kvs k of None \<Rightarrow> Inl ([CHR 0x27] @ k @ [CHR 0x27]) | Some v \<Rightarrow> Inr v)"

text \<open>
  \<^verbatim>\<open>float(v)\<close>. Salesforce delivers \<^verbatim>\<open>Amount\<close> and \<^verbatim>\<open>Probability\<close> as JSON numbers
  or \<^verbatim>\<open>null\<close>; a string is taken not to be a numeral, on which \<^verbatim>\<open>float\<close> raises
  \<^verbatim>\<open>ValueError\<close>.
\<close>

fun py_float :: "py_value \<Rightarrow> py_exn + rat" where
  "py_float (PNum r) = Inr r"
| "py_float (PBool b) = Inr (if b then 1 else 0)"
| "py_float (PStr s) = Inl (''could not convert string to float: '' @ s)"
| "py_float PNone = Inl ''float() argument must be a string or a real number, not NoneType''"
| "py_float (PList xs) = Inl ''float() argument must be a string or a real number, not list''"
| "py_float (PDict kvs) = Inl ''float() argument must be a string or a real number, not dict''"

text \<open>\<^verbatim>\<open>float(opportunity[key]) if opportunity.get(key) else 0.0\<close>\<close>

definition float_field :: "(string \<times> py_value) list \<Rightarrow> string \<Rightarrow> py_exn + rat" where
  "float_field opportunity key =
     (if truthy (dict_get opportunity key PNone) then
        and_then (dict_item opportunity key) py_float
      else Inr 0)"

text \<open>
  \<^verbatim>\<open>opportunity[relation][key] if opportunity.get(relation) else None\<close>: an absent or
  empty relation gives \<^verbatim>\<open>None\<close>; a relation that is a dictionary is indexed; any other
  true value cannot be indexed by a string.
\<close>

definition related_field :: "(string \<times> py_value) list \<Rightarrow> string \<Rightarrow> string \<Rightarrow> py_exn + py_value" where
  "related_field opportunity relation key =
     (if truthy (dict_get opportunity relation PNone) then
        and_then (dict_item opportunity relation)
          (\<lambda>related. case related of
               PDict kvs \<Rightarrow> dict_item kvs key
             | PStr s \<Rightarrow> Inl ''string indices must be integers''
             | PList xs \<Rightarrow> Inl ''list indices must be integers or slices, not str''
             | _ \<Rightarrow> Inl ''object is not subscriptable'')
      else Inr PNone)"

text \<open>
  The call of \<^verbatim>\<open>convert_currency_amount\<close> with the value of \<^verbatim>\<open>CurrencyIsoCode\<close>. A
  string or \<^verbatim>\<open>None\<close> is passed on as it is. Any other value is not a string: when it is
  false, or the amount is zero, the function returns before it calls \<^verbatim>\<open>upper\<close>, with
  the result it gives for a missing code (the document does not read
  \<^verbatim>\<open>original_currency\<close> from the result); otherwise \<^verbatim>\<open>upper\<close> raises
  \<^verbatim>\<open>AttributeError\<close>.
\<close>

definition convert_for_record ::
  "rat \<Rightarrow> py_value \<Rightarrow> string \<Rightarrow> rate_table \<Rightarrow> py_exn + conversion_result" where
  "convert_for_record amount0 currency0 target_currency conversion_rates =
     (case currency0 of
        PStr s \<Rightarrow>
          Inr (convert_currency_amount (Some amount0) (Some s)
                 (Some target_currency) conversion_rates)
      | PNone \<Rightarrow>
          Inr (convert_currency_amount (Some amount0) None
                 (Some target_currency) conversion_rates)
      | other \<Rightarrow>
          if amount0 \<noteq> 0 \<and> truthy other then
            Inl ''object has no attribute upper''
          else
            Inr (convert_currency_amount (Some amount0) None
                   (Some target_currency) conversion_rates))"

text \<open>The document of a deleted or unknown opportunity (\<^verbatim>\<open>not_found_data\<close>).\<close>

definition not_found_data :: "string \<Rightarrow> string \<Rightarrow> string \<Rightarrow> document" where
  "not_found_data opportunity_id target_currency now =
     [(''opportunity_id'', PStr opportunity_id),
      (''opportunity_name'', PStr ''OPPORTUNITY NOT FOUND''),
      (''description'', PStr ''opportunity deleted or not found''),
      (''amount'', PNum 0),
      (''currency_iso_code'', PStr ''USD''),
      (''amount_converted'', PNum 0),
      (''converted_currency'', PStr target_currency),
      (''conversion_rate'', PNum 1),
      (''conversion_successful'', PBool True),
      (''conversion_note'', PStr ''No amount to convert''),
      (''close_date'', PNone),
      (''stage_name'', PStr ''NOT_FOUND''),
      (''type'', PStr ''MISSING''),
      (''probability'', PNum 0),
      (''is_won'', PBool False),
      (''is_closed'', PBool False),
      (''account_id'', PNone),
      (''account_name'', PStr ''UNKNOWN''),
      (''owner_id'', PNone),
      (''owner_name'', PStr ''UNKNOWN''),
      (''created_date'', PNone),
      (''last_modified_date'', PNone),
      (''extracted_at'', PStr now),
      (''source'', PStr ''salesforce_opportunity_integration_not_found''),
      (''error_status'', PStr ''OPPORTUNITY_NOT_FOUND''),
      (''error_message'', PStr ''opportunity deleted or not found'')]"

text \<open>
  The document of an opportunity that was found (\<^verbatim>\<open>data\<close>). The values of the
  dictionary literal are evaluated in the order they are written, and the first one that
  raises ends the block.
\<close>

definition found_data ::
  "(string \<times> py_value) list \<Rightarrow> rat \<Rightarrow> py_value \<Rightarrow> conversion_result \<Rightarrow> string
     \<Rightarrow> py_exn + document" where
  "found_data opportunity amount0 currency0 currency_conversion now =
     and_then (dict_item opportunity ''Id'') (\<lambda>opp_id.
     and_then (dict_item opportunity ''Name'') (\<lambda>opp_name.
     and_then (float_field opportunity ''Probability'') (\<lambda>probability.
     and_then (related_field opportunity ''Account'' ''Id'') (\<lambda>account_id.
     and_then (related_field opportunity ''Account'' ''Name'') (\<lambda>account_name.
     and_then (related_field opportunity ''Owner'' ''Id'') (\<lambda>owner_id.
     and_then (related_field opportunity ''Owner'' ''Name'') (\<lambda>owner_name.
       Inr
        [(''opportunity_id'', opp_id),
         (''opportunity_name'', opp_name),
         (''description'', dict_get opportunity ''Description'' PNone),
         (''amount'', PNum amount0),
         (''currency_iso_code'', currency0),
         (''amount_converted'', option_value PNum (converted_amount currency_conversion)),
         (''converted_currency'', option_value PStr (converted_currency currency_conversion)),
         (''conversion_rate'', PNum (conversion_rate currency_conversion)),
         (''conversion_successful'', PBool (conversion_successful currency_conversion)),
         (''conversion_note'', option_value PStr (conversion_note currency_conversion)),
         (''close_date'', dict_get opportunity ''CloseDate'' PNone),
         (''stage_name'', dict_get opportunity ''StageName'' PNone),
         (''type'', dict_get opportunity ''Type'' PNone),
         (''probability'', PNum probability),
         (''is_won'', PBool (truthy (dict_get opportunity ''IsWon'' (PBool False)))),
         (''is_closed'', PBool (truthy (dict_get opportunity ''IsClosed'' (PBool False)))),
         (''account_id'', account_id),
         (''account_name'', account_name),
         (''owner_id'', owner_id),
         (''owner_name'', owner_name),
         (''created_date'', dict_get opportunity ''CreatedDate'' PNone),
         (''last_modified_date'', dict_get opportunity ''LastModifiedDate'' PNone),
         (''extracted_at'', PStr now),
         (''source'', PStr ''salesforce_opportunity_integration'')])))))))"

text \<open>\<^verbatim>\<open>needle in haystack\<close> on strings.\<close>

fun contains :: "string \<Rightarrow> string \<Rightarrow> bool" where
  "contains needle [] = (needle = [])"
| "contains needle (c # cs) =
     (take (length needle) (c # cs) = needle \<or> contains needle cs)"

text \<open>
  The chain of tests in the handler: the pair of \<^verbatim>\<open>error_type\<close> and
  \<^verbatim>\<open>error_message\<close>.
\<close>

definition classify_error :: "string \<Rightarrow> string \<times> string" where
  "classify_error error_str =
     (if contains ''No such column'' error_str \<and> contains ''__c'' error_str then
        (''CUSTOM_FIELD_ERROR'', ''Custom field error: '' @ error_str)
      else if contains ''INVALID_FIELD'' error_str then
        (''INVALID_FIELD_ERROR'', ''Invalid field error: '' @ error_str)
      else if contains ''MALFORMED_QUERY'' error_str then
        (''MALFORMED_QUERY_ERROR'', ''Malformed query error: '' @ error_str)
      else if contains ''INSUFFICIENT_ACCESS'' error_str then
        (''ACCESS_ERROR'', ''Insufficient access to query opportunity: '' @ error_str)
      else
        (''QUERY_ERROR'', ''Error querying Salesforce: '' @ error_str))"

text \<open>The document of a query that raised (\<^verbatim>\<open>error_data\<close>).\<close>

definition error_data :: "string \<Rightarrow> string \<Rightarrow> string \<Rightarrow> string \<Rightarrow> string \<Rightarrow> document" where
  "error_data opportunity_id target_currency now error_type error_message =
     [(''opportunity_id'', PStr opportunity_id),
      (''opportunity_name'', PStr (''ERROR: '' @ error_type)),
      (''description'', PStr error_message),
      (''amount'', PNum 0),
      (''currency_iso_code'', PStr ''USD''),
      (''amount_converted'', PNum 0),
      (''converted_currency'', PStr target_currency),
      (''conversion_rate'', PNum 1),
      (''conversion_successful'', PBool True),
      (''conversion_note'', PStr ''No amount to convert (error)''),
      (''close_date'', PNone),
      (''stage_name'', PStr ''ERROR''),
      (''type'', PStr ''ERROR''),
      (''probability'', PNum 0),
      (''is_won'', PBool False),
      (''is_closed'', PBool False),
      (''account_id'', PNone),
      (''account_name'', PStr ''ERROR''),
      (''owner_id'', PNone),
      (''owner_name'', PStr ''ERROR''),
      (''created_date'', PNone),
      (''last_modified_date'', PNone),
      (''extracted_at'', PStr now),
      (''source'', PStr ''salesforce_opportunity_integration_error''),
      (''error_status'', PStr error_type),
      (''error_message'', PStr error_message)]"

text \<open>
  The body of the \<^verbatim>\<open>try\<close> block of \<^verbatim>\<open>query_opportunity_data\<close>. The clock
  (\<^verbatim>\<open>datetime.utcnow().isoformat()\<close>) and the outcome of the rate request are
  arguments.
\<close>

definition query_body ::
  "query_outcome \<Rightarrow> string \<Rightarrow> string \<Rightarrow> fetch_outcome \<Rightarrow> string \<Rightarrow> py_exn + document" where
  "query_body queried opportunity_id target_currency fetched now =
     (case queried of
        QueryRaised e \<Rightarrow> Inl e
      | QueryReturned result \<Rightarrow>
          if totalSize result = 0 then
            Inr (not_found_data opportunity_id target_currency now)
          else
            (case records result of
               [] \<Rightarrow> Inl ''list index out of range''
             | opportunity # _ \<Rightarrow>
                 and_then (get_currency_conversion_rates target_currency fetched)
                   (\<lambda>conversion_rates.
                 let currency0 = dict_get opportunity ''CurrencyIsoCode'' (PStr ''USD'')
                 in
                 and_then (float_field opportunity ''Amount'') (\<lambda>amount0.
                 and_then (convert_for_record amount0 currency0 target_currency conversion_rates)
                   (\<lambda>currency_conversion.
                 found_data opportunity amount0 currency0 currency_conversion now)))))"

text \<open>
  \<^verbatim>\<open>except Exception as e\<close>: the text of the exception is classified and the error
  document is returned.
\<close>

definition query_opportunity_data ::
  "query_outcome \<Rightarrow> string \<Rightarrow> string \<Rightarrow> fetch_outcome \<Rightarrow> string \<Rightarrow> document" where
  "query_opportunity_data queried opportunity_id target_currency fetched now =
     (case query_body queried opportunity_id target_currency fetched now of
        Inr data \<Rightarrow> data
      | Inl error_str \<Rightarrow>
          (case classify_error error_str of
             (error_type, error_message) \<Rightarrow>
               error_data opportunity_id target_currency now error_type error_message))"

text \<open>The keys of a document, in order.\<close>

definition keys :: "document \<Rightarrow> string list" where
  "keys doc = map fst doc"

text \<open>
  For the examples below: a row as \<^verbatim>\<open>sf.query\<close> returns it, with an account and without
  an owner.
\<close>

definition example_opportunity :: "(string \<times> py_value) list" where
  "example_opportunity =
     [(''Id'', PStr ''006Vv00000ABC123''),
      (''Name'', PStr ''Renewal''),
      (''Account'', PDict [(''Id'', PStr ''001Vv00000XYZ789''), (''Name'', PStr ''Acme'')]),
      (''CloseDate'', PStr ''2024-06-30''),
      (''Amount'', PNum 1000000),
      (''CurrencyIsoCode'', PStr ''JPY''),
      (''StageName'', PStr ''Closed Won''),
      (''Type'', PNone),
      (''Probability'', PNum 100),
      (''IsWon'', PBool True),
      (''IsClosed'', PBool True),
      (''CreatedDate'', PStr ''2024-01-01T00:00:00.000+0000''),
      (''LastModifiedDate'', PStr ''2024-06-30T00:00:00.000+0000''),
      (''Owner'', PNone),
      (''Description'', PNone)]"

text \<open>
  For the statements below: the twenty-four keys that the three dictionary literals have
  in common, in their order, and the two keys only the documents of the not-found and
  error cases carry.
\<close>

definition common_keys :: "string list" where
  "common_keys =
     [''opportunity_id'', ''opportunity_name'', ''description'', ''amount'',
      ''currency_iso_code'', ''amount_converted'', ''converted_currency'',
      ''conversion_rate'', ''conversion_successful'', ''conversion_note'',
      ''close_date'', ''stage_name'', ''type'', ''probability'', ''is_won'',
      ''is_closed'', ''account_id'', ''account_name'', ''owner_id'', ''owner_name'',
      ''created_date'', ''last_modified_date'', ''extracted_at'', ''source'']"

definition error_keys :: "string list" where
  "error_keys = [''error_status'', ''error_message'']"

section \<open>Properties of \<^verbatim>\<open>convert_currency_amount\<close>\<close>

subsection \<open>The six ways out of the function\<close>

text \<open>
  The function leaves through one of six exits, tried in this order: zero or absent
  amount, missing currency code, same currency, unknown source currency, an exception in
  the calculation, and the calculation itself. Each lemma gives the whole result
  dictionary of one exit.
\<close>

lemma convert_zero_amount:
  assumes "amount_missing amount"
  shows "convert_currency_amount amount from_currency to_currency conversion_rates =
     \<lparr> original_amount = amount, original_currency = from_currency, converted_amount = Some 0,
       converted_currency = to_currency, conversion_rate = 1, conversion_successful = True,
       conversion_note = Some ''Zero amount'' \<rparr>"
  using assms by (simp add: convert_currency_amount_def)

lemma convert_missing_currency:
  assumes "amount = Some a" "a \<noteq> 0"
    and "currency_missing from_currency \<or> currency_missing to_currency"
  shows "convert_currency_amount amount from_currency to_currency conversion_rates =
     \<lparr> original_amount = amount, original_currency = from_currency, converted_amount = amount,
       converted_currency = to_currency, conversion_rate = 1, conversion_successful = False,
       conversion_note = Some ''Missing currency information'' \<rparr>"
  using assms by (auto simp: convert_currency_amount_def amount_missing_def)

lemma convert_same_currency:
  assumes "amount = Some a" "a \<noteq> 0"
    and "\<not> currency_missing from_currency" "\<not> currency_missing to_currency"
    and "normalize_currency from_currency = normalize_currency to_currency"
  shows "convert_currency_amount amount from_currency to_currency conversion_rates =
     \<lparr> original_amount = amount, original_currency = from_currency, converted_amount = amount,
       converted_currency = to_currency, conversion_rate = 1, conversion_successful = True,
       conversion_note = Some ''Same currency'' \<rparr>"
  using assms by (auto simp: convert_currency_amount_def amount_missing_def)

lemma convert_unknown_source:
  assumes "amount = Some a" "a \<noteq> 0"
    and "\<not> currency_missing from_currency" "\<not> currency_missing to_currency"
    and "normalize_currency from_currency \<noteq> normalize_currency to_currency"
    and "conversion_rates (normalize_currency from_currency) = None"
  shows "convert_currency_amount amount from_currency to_currency conversion_rates =
     \<lparr> original_amount = amount, original_currency = from_currency, converted_amount = amount,
       converted_currency = to_currency, conversion_rate = 1, conversion_successful = False,
       conversion_note = Some (''Conversion rate not available for '' @ normalize_currency from_currency) \<rparr>"
  using assms by (auto simp: convert_currency_amount_def amount_missing_def)

lemma convert_calculated:
  assumes "amount = Some a" "a \<noteq> 0"
    and "\<not> currency_missing from_currency" "\<not> currency_missing to_currency"
    and "normalize_currency from_currency \<noteq> normalize_currency to_currency"
    and "conversion_rates (normalize_currency from_currency) = Some from_rate"
    and "calculate_conversion a from_rate (normalize_currency to_currency) conversion_rates = Inr (rate, converted)"
  shows "convert_currency_amount amount from_currency to_currency conversion_rates =
     \<lparr> original_amount = amount, original_currency = from_currency,
       converted_amount = Some (py_round converted 2),
       converted_currency = to_currency, conversion_rate = py_round rate 6, conversion_successful = True,
       conversion_note = Some ''Converted via API rates'' \<rparr>"
  using assms by (auto simp: convert_currency_amount_def amount_missing_def)

lemma convert_calculation_error:
  assumes "amount = Some a" "a \<noteq> 0"
    and "\<not> currency_missing from_currency" "\<not> currency_missing to_currency"
    and "normalize_currency from_currency \<noteq> normalize_currency to_currency"
    and "conversion_rates (normalize_currency from_currency) = Some from_rate"
    and "calculate_conversion a from_rate (normalize_currency to_currency) conversion_rates = Inl e"
  shows "convert_currency_amount amount from_currency to_currency conversion_rates =
     \<lparr> original_amount = amount, original_currency = from_currency,
       converted_amount = amount,
       converted_currency = to_currency, conversion_rate = 1, conversion_successful = False,
       conversion_note = Some (''Conversion calculation error: '' @ e) \<rparr>"
  using assms by (auto simp: convert_currency_amount_def amount_missing_def)

lemma calculate_conversion_cases:
  "calculate_conversion a from_rate to_c conversion_rates =
     (if to_c \<noteq> ''USD'' \<and> conversion_rates to_c = Some 0
      then Inl ''float division by zero''
      else Inr (applied_rate from_rate to_c conversion_rates,
                a * applied_rate from_rate to_c conversion_rates))"
  by (auto simp: calculate_conversion_def applied_rate_def py_truediv_def Let_def
           split: option.splits)

subsection \<open>Zero or absent amount\<close>

text \<open>
  Claim C6. When the amount is zero or absent, \<^verbatim>\<open>convert_currency_amount\<close> returns a
  successful result with converted amount 0 and the note \<^verbatim>\<open>Zero amount\<close>, whatever the
  two currency codes and the rate table are: the test on the amount comes before any test
  on the currency codes.
\<close>

theorem zero_amount_success:
  assumes "amount = None \<or> amount = Some 0"
  shows "conversion_successful
           (convert_currency_amount amount from_currency to_currency conversion_rates)
       \<and> converted_amount
           (convert_currency_amount amount from_currency to_currency conversion_rates) = Some 0
       \<and> conversion_note
           (convert_currency_amount amount from_currency to_currency conversion_rates)
           = Some ''Zero amount''"
proof -
  from assms have "amount_missing amount"
    by (auto simp: amount_missing_def)
  then show ?thesis
    by (simp add: convert_zero_amount)
qed

theorem zero_amount_success_witness:
  "(Some 0 = (None :: rat option) \<or> Some (0 :: rat) = Some 0)
   \<and> conversion_successful
       (convert_currency_amount (Some 0) (Some ''EUR'') (Some ''USD'') Map.empty)
   \<and> converted_amount
       (convert_currency_amount (Some 0) (Some ''EUR'') (Some ''USD'') Map.empty) = Some 0
   \<and> conversion_note
       (convert_currency_amount (Some 0) (Some ''EUR'') (Some ''USD'') Map.empty)
       = Some ''Zero amount''
   \<and> conversion_successful (convert_currency_amount None None None Map.empty)
   \<and> converted_amount (convert_currency_amount None None None Map.empty) = Some 0"
proof -
  have h: "Some 0 = (None :: rat option) \<or> Some (0 :: rat) = Some 0" by simp
  have n: "(None :: rat option) = None \<or> (None :: rat option) = Some 0" by simp
  from zero_amount_success [OF h, of "Some ''EUR''" "Some ''USD''" Map.empty]
       zero_amount_success [OF n, of None None Map.empty] h
  show ?thesis by blast
qed

subsection \<open>Failures leave the amount unchanged\<close>

text \<open>
  The second half of claim C7 does not hold for every input with a source currency that
  the table lacks: the comparison of the two normalized codes comes before the lookup, so
  an unknown source currency that equals the target gives a successful result.
\<close>

theorem unknown_source_same_currency_counterexample:
  "(Map.empty :: rate_table) (normalize_currency (Some ''XYZ'')) = None
   \<and> conversion_successful
       (convert_currency_amount (Some 100) (Some ''XYZ'') (Some ''xyz'') Map.empty)
   \<and> conversion_note
       (convert_currency_amount (Some 100) (Some ''XYZ'') (Some ''xyz'') Map.empty)
       = Some ''Same currency''"
  by code_simp

text \<open>
  Claim C7, amended. For a nonzero amount: when either currency code is missing, the
  result is a failure with the note \<^verbatim>\<open>Missing currency information\<close> and the converted
  amount equal to the original amount; and when both codes are present, their normalized
  forms differ and the normalized source currency is absent from the rate table, the
  result is a failure whose note names the missing currency, again with the converted
  amount equal to the original amount.
\<close>

theorem failed_conversion_keeps_amount:
  assumes "a \<noteq> 0"
  shows "(currency_missing from_currency \<or> currency_missing to_currency \<longrightarrow>
            \<not> conversion_successful
                (convert_currency_amount (Some a) from_currency to_currency conversion_rates)
          \<and> conversion_note
                (convert_currency_amount (Some a) from_currency to_currency conversion_rates)
              = Some ''Missing currency information''
          \<and> converted_amount
                (convert_currency_amount (Some a) from_currency to_currency conversion_rates)
              = Some a)
       \<and> (\<not> currency_missing from_currency \<and> \<not> currency_missing to_currency
          \<and> normalize_currency from_currency \<noteq> normalize_currency to_currency
          \<and> conversion_rates (normalize_currency from_currency) = None \<longrightarrow>
            \<not> conversion_successful
                (convert_currency_amount (Some a) from_currency to_currency conversion_rates)
          \<and> conversion_note
                (convert_currency_amount (Some a) from_currency to_currency conversion_rates)
              = Some (''Conversion rate not available for '' @ normalize_currency from_currency)
          \<and> converted_amount
                (convert_currency_amount (Some a) from_currency to_currency conversion_rates)
              = Some a)"
  using assms
  by (simp add: convert_missing_currency [OF refl] convert_unknown_source [OF refl])

theorem failed_conversion_keeps_amount_witness:
  "(100 :: rat) \<noteq> 0
   \<and> currency_missing None
   \<and> \<not> conversion_successful
         (convert_currency_amount (Some 100) None (Some ''USD'') [''USD'' \<mapsto> 1])
   \<and> conversion_note
         (convert_currency_amount (Some 100) None (Some ''USD'') [''USD'' \<mapsto> 1])
       = Some ''Missing currency information''
   \<and> converted_amount
         (convert_currency_amount (Some 100) None (Some ''USD'') [''USD'' \<mapsto> 1])
       = Some 100
   \<and> \<not> currency_missing (Some ''XYZ'') \<and> \<not> currency_missing (Some ''USD'')
   \<and> normalize_currency (Some ''XYZ'') \<noteq> normalize_currency (Some ''USD'')
   \<and> [''USD'' \<mapsto> (1 :: rat)] (normalize_currency (Some ''XYZ'')) = None
   \<and> \<not> conversion_successful
         (convert_currency_amount (Some 100) (Some ''XYZ'') (Some ''USD'') [''USD'' \<mapsto> 1])
   \<and> conversion_note
         (convert_currency_amount (Some 100) (Some ''XYZ'') (Some ''USD'') [''USD'' \<mapsto> 1])
       = Some ''Conversion rate not available for XYZ''
   \<and> converted_amount
         (convert_currency_amount (Some 100) (Some ''XYZ'') (Some ''USD'') [''USD'' \<mapsto> 1])
       = Some 100"
proof -
  have nz: "(100 :: rat) \<noteq> 0" by simp
  have m: "currency_missing None" by (simp add: currency_missing_def)
  have p: "\<not> currency_missing (Some ''XYZ'')" "\<not> currency_missing (Some ''USD'')"
    by (simp_all add: currency_missing_def)
  have x: "normalize_currency (Some ''XYZ'') = ''XYZ''" by code_simp
  have u: "normalize_currency (Some ''USD'') = ''USD''" by code_simp
  have d: "normalize_currency (Some ''XYZ'') \<noteq> normalize_currency (Some ''USD'')"
    by (simp add: x u)
  have k: "[''USD'' \<mapsto> (1 :: rat)] (normalize_currency (Some ''XYZ'')) = None"
    by (simp add: x)
  from failed_conversion_keeps_amount [OF nz, of None "Some ''USD''" "[''USD'' \<mapsto> 1]"] m
  have first: "\<not> conversion_successful
         (convert_currency_amount (Some 100) None (Some ''USD'') [''USD'' \<mapsto> 1])
   \<and> conversion_note
         (convert_currency_amount (Some 100) None (Some ''USD'') [''USD'' \<mapsto> 1])
       = Some ''Missing currency information''
   \<and> converted_amount
         (convert_currency_amount (Some 100) None (Some ''USD'') [''USD'' \<mapsto> 1])
       = Some 100"
    by blast
  from failed_conversion_keeps_amount
         [OF nz, of "Some ''XYZ''" "Some ''USD''" "[''USD'' \<mapsto> 1]"] p d k
  have second: "\<not> conversion_successful
         (convert_currency_amount (Some 100) (Some ''XYZ'') (Some ''USD'') [''USD'' \<mapsto> 1])
   \<and> conversion_note
         (convert_currency_amount (Some 100) (Some ''XYZ'') (Some ''USD'') [''USD'' \<mapsto> 1])
       = Some (''Conversion rate not available for '' @ normalize_currency (Some ''XYZ''))
   \<and> converted_amount
         (convert_currency_amount (Some 100) (Some ''XYZ'') (Some ''USD'') [''USD'' \<mapsto> 1])
       = Some 100"
    by blast
  from first second nz m p d k show ?thesis
    by (simp only: x append.simps) simp
qed

subsection \<open>A target currency that the table lacks\<close>

text \<open>
  Claim C10. For a nonzero amount and distinct normalized currencies, with the source
  currency in the rate table and a target currency that is not \<^verbatim>\<open>USD\<close> and is absent
  from the table, the conversion succeeds: the missing target rate is taken to be 1.0, the
  stored rate is the source rate divided by 1.0 and rounded to 6 decimals, and the
  converted amount is the product rounded to 2 decimals.
\<close>

theorem missing_target_rate_defaults_to_one:
  assumes "a \<noteq> 0"
    and "\<not> currency_missing from_currency" and "\<not> currency_missing to_currency"
    and "normalize_currency from_currency \<noteq> normalize_currency to_currency"
    and "conversion_rates (normalize_currency from_currency) = Some from_rate"
    and "normalize_currency to_currency \<noteq> ''USD''"
    and "conversion_rates (normalize_currency to_currency) = None"
  shows "conversion_successful
           (convert_currency_amount (Some a) from_currency to_currency conversion_rates)
       \<and> conversion_rate
           (convert_currency_amount (Some a) from_currency to_currency conversion_rates)
           = py_round (from_rate / 1) 6
       \<and> converted_amount
           (convert_currency_amount (Some a) from_currency to_currency conversion_rates)
           = Some (py_round (a * (from_rate / 1)) 2)"
proof -
  from assms(6,7)
  have "calculate_conversion a from_rate (normalize_currency to_currency) conversion_rates
          = Inr (from_rate / 1, a * (from_rate / 1))"
    by (simp add: calculate_conversion_def py_truediv_def)
  from convert_calculated [OF refl assms(1-5) this] show ?thesis
    by simp
qed

theorem missing_target_rate_defaults_to_one_witness:
  "(100 :: rat) \<noteq> 0
   \<and> \<not> currency_missing (Some ''JPY'') \<and> \<not> currency_missing (Some ''MXN'')
   \<and> normalize_currency (Some ''JPY'') \<noteq> normalize_currency (Some ''MXN'')
   \<and> [''USD'' \<mapsto> 1, ''JPY'' \<mapsto> 67 / 10000] (normalize_currency (Some ''JPY''))
       = Some (67 / 10000 :: rat)
   \<and> normalize_currency (Some ''MXN'') \<noteq> ''USD''
   \<and> [''USD'' \<mapsto> 1, ''JPY'' \<mapsto> (67 / 10000 :: rat)] (normalize_currency (Some ''MXN'')) = None
   \<and> conversion_successful
       (convert_currency_amount (Some 100) (Some ''JPY'') (Some ''MXN'')
          [''USD'' \<mapsto> 1, ''JPY'' \<mapsto> 67 / 10000])
   \<and> conversion_rate
       (convert_currency_amount (Some 100) (Some ''JPY'') (Some ''MXN'')
          [''USD'' \<mapsto> 1, ''JPY'' \<mapsto> 67 / 10000])
       = py_round (67 / 10000 / 1) 6
   \<and> converted_amount
       (convert_currency_amount (Some 100) (Some ''JPY'') (Some ''MXN'')
          [''USD'' \<mapsto> 1, ''JPY'' \<mapsto> 67 / 10000])
       = Some (py_round (100 * (67 / 10000 / 1)) 2)"
proof -
  let ?rates = "[''USD'' \<mapsto> 1, ''JPY'' \<mapsto> (67 / 10000 :: rat)]"
  have nz: "(100 :: rat) \<noteq> 0" by simp
  have p: "\<not> currency_missing (Some ''JPY'')" "\<not> currency_missing (Some ''MXN'')"
    by (simp_all add: currency_missing_def)
  have j: "normalize_currency (Some ''JPY'') = ''JPY''" by code_simp
  have m: "normalize_currency (Some ''MXN'') = ''MXN''" by code_simp
  have d: "normalize_currency (Some ''JPY'') \<noteq> normalize_currency (Some ''MXN'')"
    by (simp add: j m)
  have fr: "?rates (normalize_currency (Some ''JPY'')) = Some (67 / 10000)"
    by (simp add: j)
  have nu: "normalize_currency (Some ''MXN'') \<noteq> ''USD''" by (simp add: m)
  have tr: "?rates (normalize_currency (Some ''MXN'')) = None" by (simp add: m)
  from missing_target_rate_defaults_to_one [OF nz p d fr nu tr] nz p d fr nu tr
  show ?thesis by blast
qed

subsection \<open>The converted amount and the stored rate\<close>

text \<open>
  Claim C2 as stated fails: the product is taken with the rate before it is rounded to 6
  decimals, so the stored rate does not reproduce the converted amount. One million yen
  to euro with the static rates gives 5677.97, while the stored rate 0.005678 gives
  5678.00.
\<close>

theorem stored_rate_counterexample:
  "conversion_successful
     (convert_currency_amount (Some 1000000) (Some ''JPY'') (Some ''EUR'')
        (map_of [(''USD'', 1), (''EUR'', 118 / 100), (''JPY'', 67 / 10000)]))
   \<and> conversion_note
        (convert_currency_amount (Some 1000000) (Some ''JPY'') (Some ''EUR'')
           (map_of [(''USD'', 1), (''EUR'', 118 / 100), (''JPY'', 67 / 10000)]))
       = Some ''Converted via API rates''
   \<and> converted_amount
        (convert_currency_amount (Some 1000000) (Some ''JPY'') (Some ''EUR'')
           (map_of [(''USD'', 1), (''EUR'', 118 / 100), (''JPY'', 67 / 10000)]))
       = Some (567797 / 100)
   \<and> conversion_rate
        (convert_currency_amount (Some 1000000) (Some ''JPY'') (Some ''EUR'')
           (map_of [(''USD'', 1), (''EUR'', 118 / 100), (''JPY'', 67 / 10000)]))
       = 5678 / 1000000
   \<and> py_round (1000000 * (5678 / 1000000)) 2 = 5678
   \<and> converted_amount
        (convert_currency_amount (Some 1000000) (Some ''JPY'') (Some ''EUR'')
           (map_of [(''USD'', 1), (''EUR'', 118 / 100), (''JPY'', 67 / 10000)]))
       \<noteq> Some (py_round (1000000 * conversion_rate
              (convert_currency_amount (Some 1000000) (Some ''JPY'') (Some ''EUR'')
                 (map_of [(''USD'', 1), (''EUR'', 118 / 100), (''JPY'', 67 / 10000)]))) 2)"
  by code_simp

text \<open>
  Claim C2, amended. Every successful result is of one of three kinds. In the zero-amount
  case the stored rate is 1.0 and the note is \<^verbatim>\<open>Zero amount\<close>. In the same-currency
  case the stored rate is 1.0 and the note is \<^verbatim>\<open>Same currency\<close>. In every other case
  the converted amount is the original amount times the applied rate, rounded to 2
  decimals, and the stored rate is that same applied rate rounded to 6 decimals; the
  applied rate is the one before rounding.
\<close>

theorem successful_conversion_shape:
  assumes "conversion_successful (convert_currency_amount amount from_currency to_currency conversion_rates)"
  shows "(amount_missing amount
          \<and> conversion_rate (convert_currency_amount amount from_currency to_currency conversion_rates) = 1
          \<and> conversion_note (convert_currency_amount amount from_currency to_currency conversion_rates) = Some ''Zero amount'')
       \<or> (\<not> amount_missing amount
          \<and> normalize_currency from_currency = normalize_currency to_currency
          \<and> conversion_rate (convert_currency_amount amount from_currency to_currency conversion_rates) = 1
          \<and> conversion_note (convert_currency_amount amount from_currency to_currency conversion_rates) = Some ''Same currency'')
       \<or> (\<exists>a from_rate.
            amount = Some a \<and> a \<noteq> 0
          \<and> normalize_currency from_currency \<noteq> normalize_currency to_currency
          \<and> conversion_rates (normalize_currency from_currency) = Some from_rate
          \<and> converted_amount (convert_currency_amount amount from_currency to_currency conversion_rates)
              = Some (py_round (a * applied_rate from_rate (normalize_currency to_currency) conversion_rates) 2)
          \<and> conversion_rate (convert_currency_amount amount from_currency to_currency conversion_rates)
              = py_round (applied_rate from_rate (normalize_currency to_currency) conversion_rates) 6)"
proof (cases "amount_missing amount")
  case True
  then show ?thesis by (simp add: convert_zero_amount)
next
  case False
  then obtain a where a: "amount = Some a" "a \<noteq> 0"
    by (auto simp: amount_missing_def split: option.splits)
  show ?thesis
  proof (cases "currency_missing from_currency \<or> currency_missing to_currency")
    case True
    with assms a show ?thesis by (simp add: convert_missing_currency)
  next
    case present: False
    show ?thesis
    proof (cases "normalize_currency from_currency = normalize_currency to_currency")
      case True
      with present a False show ?thesis by (simp add: convert_same_currency)
    next
      case distinct: False
      show ?thesis
      proof (cases "conversion_rates (normalize_currency from_currency)")
        case None
        with assms a present distinct show ?thesis by (simp add: convert_unknown_source)
      next
        case (Some from_rate)
        show ?thesis
        proof (cases "normalize_currency to_currency \<noteq> ''USD''
                      \<and> conversion_rates (normalize_currency to_currency) = Some 0")
          case True
          then have "calculate_conversion a from_rate (normalize_currency to_currency) conversion_rates
                       = Inl ''float division by zero''"
            by (simp add: calculate_conversion_cases)
          with assms a present distinct Some show ?thesis
            by (simp add: convert_calculation_error)
        next
          case False
          then have "calculate_conversion a from_rate (normalize_currency to_currency) conversion_rates
                       = Inr (applied_rate from_rate (normalize_currency to_currency) conversion_rates,
                              a * applied_rate from_rate (normalize_currency to_currency) conversion_rates)"
            by (simp add: calculate_conversion_cases)
          with a present distinct Some show ?thesis
            by (simp add: convert_calculated)
        qed
      qed
    qed
  qed
qed

theorem successful_conversion_shape_witness:
  "conversion_successful
     (convert_currency_amount (Some 1000000) (Some ''JPY'') (Some ''EUR'')
        (map_of [(''USD'', 1), (''EUR'', 118 / 100), (''JPY'', 67 / 10000)]))
   \<and> converted_amount
        (convert_currency_amount (Some 1000000) (Some ''JPY'') (Some ''EUR'')
           (map_of [(''USD'', 1), (''EUR'', 118 / 100), (''JPY'', 67 / 10000)]))
       = Some (py_round (1000000 * applied_rate (67 / 10000) ''EUR''
                 (map_of [(''USD'', 1), (''EUR'', 118 / 100), (''JPY'', 67 / 10000)])) 2)
   \<and> conversion_rate
        (convert_currency_amount (Some 1000000) (Some ''JPY'') (Some ''EUR'')
           (map_of [(''USD'', 1), (''EUR'', 118 / 100), (''JPY'', 67 / 10000)]))
       = py_round (applied_rate (67 / 10000) ''EUR''
            (map_of [(''USD'', 1), (''EUR'', 118 / 100), (''JPY'', 67 / 10000)])) 6"
proof -
  let ?rates = "map_of [(''USD'', 1), (''EUR'', 118 / 100), (''JPY'', 67 / 10000 :: rat)]"
  let ?r = "convert_currency_amount (Some 1000000) (Some ''JPY'') (Some ''EUR'') ?rates"
  have ok: "conversion_successful ?r" by code_simp
  have nz: "\<not> amount_missing (Some (1000000 :: rat))" by code_simp
  have f: "normalize_currency (Some ''JPY'') = ''JPY''" by code_simp
  have t: "normalize_currency (Some ''EUR'') = ''EUR''" by code_simp
  have fr: "?rates ''JPY'' = Some (67 / 10000)" by simp
  from successful_conversion_shape [OF ok] nz f t
  obtain a from_rate where
    a: "Some (1000000 :: rat) = Some a" and
    r: "?rates ''JPY'' = Some from_rate" and
    c: "converted_amount ?r = Some (py_round (a * applied_rate from_rate ''EUR'' ?rates) 2)" and
    s: "conversion_rate ?r = py_round (applied_rate from_rate ''EUR'' ?rates) 6"
    by auto
  from a have "a = 1000000" by simp
  moreover from r fr have "from_rate = 67 / 10000" by (simp only: option.inject)
  ultimately show ?thesis using ok c s by (simp only:) 
qed

subsection \<open>The branch on the target currency\<close>

text \<open>
  Claim C4 as stated fails: the code does not ask which currency the table is based on,
  it asks whether the target is \<^verbatim>\<open>USD\<close>. With a table based on the euro (the euro maps
  to 1.0) and the target \<^verbatim>\<open>USD\<close>, which is not the base of that table, the rate of the
  source currency is applied as it is and no cross rate is formed: 100 yen give 0.57
  with stored rate 0.005678, where the cross rate 0.0067 would give 0.67.
\<close>

theorem usd_target_not_table_base_counterexample:
  "[''EUR'' \<mapsto> 1, ''USD'' \<mapsto> 100 / 118, ''JPY'' \<mapsto> 67 / 11800] ''EUR'' = Some (1 :: rat)
   \<and> normalize_currency (Some ''USD'') \<noteq> ''EUR''
   \<and> normalize_currency (Some ''JPY'') \<noteq> normalize_currency (Some ''USD'')
   \<and> conversion_successful
        (convert_currency_amount (Some 100) (Some ''JPY'') (Some ''USD'')
           [''EUR'' \<mapsto> 1, ''USD'' \<mapsto> 100 / 118, ''JPY'' \<mapsto> 67 / 11800])
   \<and> conversion_rate
        (convert_currency_amount (Some 100) (Some ''JPY'') (Some ''USD'')
           [''EUR'' \<mapsto> 1, ''USD'' \<mapsto> 100 / 118, ''JPY'' \<mapsto> 67 / 11800])
       = 5678 / 1000000
   \<and> py_round ((67 / 11800) / (100 / 118)) 6 = 67 / 10000
   \<and> converted_amount
        (convert_currency_amount (Some 100) (Some ''JPY'') (Some ''USD'')
           [''EUR'' \<mapsto> 1, ''USD'' \<mapsto> 100 / 118, ''JPY'' \<mapsto> 67 / 11800])
       = Some (57 / 100)
   \<and> py_round (100 * ((67 / 11800) / (100 / 118))) 2 = 67 / 100"
  by code_simp

text \<open>
  Claim C4, amended. For a nonzero amount, distinct normalized currency codes and a rate
  table that contains the source currency: when the normalized target is \<^verbatim>\<open>USD\<close>, the
  conversion succeeds with the converted amount \<open>round(amount * rate[from], 2)\<close> and the
  stored rate \<open>round(rate[from], 6)\<close>; when the normalized target is any other currency
  and its rate in the table is not zero, the conversion succeeds with the cross rate
  \<open>rate[from] / rates.get(to, 1.0)\<close> applied, the converted amount rounded to 2 decimals
  and the stored rate to 6 decimals. The witness holds the example of the specification:
  100 yen to \<^verbatim>\<open>USD\<close> at 0.0067 give 0.67 with stored rate 0.0067.
\<close>

theorem conversion_by_target:
  assumes "a \<noteq> 0"
    and "\<not> currency_missing from_currency" and "\<not> currency_missing to_currency"
    and "normalize_currency from_currency \<noteq> normalize_currency to_currency"
    and "conversion_rates (normalize_currency from_currency) = Some from_rate"
  shows "(normalize_currency to_currency = ''USD'' \<longrightarrow>
            conversion_successful
              (convert_currency_amount (Some a) from_currency to_currency conversion_rates)
          \<and> converted_amount
              (convert_currency_amount (Some a) from_currency to_currency conversion_rates)
              = Some (py_round (a * from_rate) 2)
          \<and> conversion_rate
              (convert_currency_amount (Some a) from_currency to_currency conversion_rates)
              = py_round from_rate 6)
       \<and> (normalize_currency to_currency \<noteq> ''USD''
          \<and> conversion_rates (normalize_currency to_currency) \<noteq> Some 0 \<longrightarrow>
            conversion_successful
              (convert_currency_amount (Some a) from_currency to_currency conversion_rates)
          \<and> converted_amount
              (convert_currency_amount (Some a) from_currency to_currency conversion_rates)
              = Some (py_round
                        (a * (from_rate /
                               (case conversion_rates (normalize_currency to_currency) of
                                  None \<Rightarrow> 1 | Some to_rate \<Rightarrow> to_rate))) 2)
          \<and> conversion_rate
              (convert_currency_amount (Some a) from_currency to_currency conversion_rates)
              = py_round
                  (from_rate /
                     (case conversion_rates (normalize_currency to_currency) of
                        None \<Rightarrow> 1 | Some to_rate \<Rightarrow> to_rate)) 6)"
proof -
  let ?to = "normalize_currency to_currency"
  have calc: "calculate_conversion a from_rate ?to conversion_rates
                = Inr (applied_rate from_rate ?to conversion_rates,
                       a * applied_rate from_rate ?to conversion_rates)"
    if "?to = ''USD'' \<or> conversion_rates ?to \<noteq> Some 0"
    using that by (auto simp: calculate_conversion_cases)
  show ?thesis
  proof (rule conjI; rule impI)
    assume u: "?to = ''USD''"
    from convert_calculated [OF refl assms calc] u
    show "conversion_successful
            (convert_currency_amount (Some a) from_currency to_currency conversion_rates)
        \<and> converted_amount
            (convert_currency_amount (Some a) from_currency to_currency conversion_rates)
            = Some (py_round (a * from_rate) 2)
        \<and> conversion_rate
            (convert_currency_amount (Some a) from_currency to_currency conversion_rates)
            = py_round from_rate 6"
      by (simp add: applied_rate_def)
  next
    assume n: "?to \<noteq> ''USD'' \<and> conversion_rates ?to \<noteq> Some 0"
    from convert_calculated [OF refl assms calc] n
    show "conversion_successful
            (convert_currency_amount (Some a) from_currency to_currency conversion_rates)
        \<and> converted_amount
            (convert_currency_amount (Some a) from_currency to_currency conversion_rates)
            = Some (py_round
                      (a * (from_rate /
                             (case conversion_rates ?to of
                                None \<Rightarrow> 1 | Some to_rate \<Rightarrow> to_rate))) 2)
        \<and> conversion_rate
            (convert_currency_amount (Some a) from_currency to_currency conversion_rates)
            = py_round
                (from_rate /
                   (case conversion_rates ?to of
                      None \<Rightarrow> 1 | Some to_rate \<Rightarrow> to_rate)) 6"
      by (simp add: applied_rate_def)
  qed
qed

theorem conversion_by_target_witness:
  "(100 :: rat) \<noteq> 0
   \<and> \<not> currency_missing (Some ''JPY'') \<and> \<not> currency_missing (Some ''USD'')
   \<and> \<not> currency_missing (Some ''EUR'')
   \<and> normalize_currency (Some ''JPY'') \<noteq> normalize_currency (Some ''USD'')
   \<and> normalize_currency (Some ''JPY'') \<noteq> normalize_currency (Some ''EUR'')
   \<and> [''JPY'' \<mapsto> 67 / 10000, ''USD'' \<mapsto> (1 :: rat)] (normalize_currency (Some ''JPY''))
       = Some (67 / 10000)
   \<and> normalize_currency (Some ''USD'') = ''USD''
   \<and> conversion_successful
        (convert_currency_amount (Some 100) (Some ''JPY'') (Some ''USD'')
           [''JPY'' \<mapsto> 67 / 10000, ''USD'' \<mapsto> 1])
   \<and> converted_amount
        (convert_currency_amount (Some 100) (Some ''JPY'') (Some ''USD'')
           [''JPY'' \<mapsto> 67 / 10000, ''USD'' \<mapsto> 1])
       = Some (67 / 100)
   \<and> conversion_rate
        (convert_currency_amount (Some 100) (Some ''JPY'') (Some ''USD'')
           [''JPY'' \<mapsto> 67 / 10000, ''USD'' \<mapsto> 1])
       = 67 / 10000
   \<and> [''JPY'' \<mapsto> 67 / 10000, ''EUR'' \<mapsto> (118 / 100 :: rat)] (normalize_currency (Some ''JPY''))
       = Some (67 / 10000)
   \<and> normalize_currency (Some ''EUR'') \<noteq> ''USD''
   \<and> [''JPY'' \<mapsto> 67 / 10000, ''EUR'' \<mapsto> (118 / 100 :: rat)] (normalize_currency (Some ''EUR''))
       = Some (118 / 100)
   \<and> conversion_successful
        (convert_currency_amount (Some 100) (Some ''JPY'') (Some ''EUR'')
           [''JPY'' \<mapsto> 67 / 10000, ''EUR'' \<mapsto> 118 / 100])
   \<and> converted_amount
        (convert_currency_amount (Some 100) (Some ''JPY'') (Some ''EUR'')
           [''JPY'' \<mapsto> 67 / 10000, ''EUR'' \<mapsto> 118 / 100])
       = Some (py_round (100 * (67 / 10000 / (118 / 100))) 2)
   \<and> conversion_rate
        (convert_currency_amount (Some 100) (Some ''JPY'') (Some ''EUR'')
           [''JPY'' \<mapsto> 67 / 10000, ''EUR'' \<mapsto> 118 / 100])
       = py_round (67 / 10000 / (118 / 100)) 6"
proof -
  let ?usd = "[''JPY'' \<mapsto> 67 / 10000, ''USD'' \<mapsto> (1 :: rat)]"
  let ?eur = "[''JPY'' \<mapsto> 67 / 10000, ''EUR'' \<mapsto> (118 / 100 :: rat)]"
  have nz: "(100 :: rat) \<noteq> 0" by simp
  have p: "\<not> currency_missing (Some ''JPY'')" "\<not> currency_missing (Some ''USD'')"
    "\<not> currency_missing (Some ''EUR'')"
    by (simp_all add: currency_missing_def)
  have j: "normalize_currency (Some ''JPY'') = ''JPY''" by code_simp
  have u: "normalize_currency (Some ''USD'') = ''USD''" by code_simp
  have e: "normalize_currency (Some ''EUR'') = ''EUR''" by code_simp
  have d1: "normalize_currency (Some ''JPY'') \<noteq> normalize_currency (Some ''USD'')"
    by (simp add: j u)
  have d2: "normalize_currency (Some ''JPY'') \<noteq> normalize_currency (Some ''EUR'')"
    by (simp add: j e)
  have f1: "?usd (normalize_currency (Some ''JPY'')) = Some (67 / 10000)" by (simp add: j)
  have f2: "?eur (normalize_currency (Some ''JPY'')) = Some (67 / 10000)" by (simp add: j)
  have t2: "?eur (normalize_currency (Some ''EUR'')) = Some (118 / 100)" by (simp add: e)
  have nu: "normalize_currency (Some ''EUR'') \<noteq> ''USD''" by (simp add: e)
  have r2: "py_round (100 * (67 / 10000)) 2 = (67 / 100 :: rat)" by code_simp
  have r6: "py_round (67 / 10000) 6 = (67 / 10000 :: rat)" by code_simp
  from conversion_by_target [where conversion_rates = ?usd, OF nz p(1) p(2) d1 f1] u
  have first: "conversion_successful
        (convert_currency_amount (Some 100) (Some ''JPY'') (Some ''USD'') ?usd)
   \<and> converted_amount
        (convert_currency_amount (Some 100) (Some ''JPY'') (Some ''USD'') ?usd)
       = Some (py_round (100 * (67 / 10000)) 2)
   \<and> conversion_rate
        (convert_currency_amount (Some 100) (Some ''JPY'') (Some ''USD'') ?usd)
       = py_round (67 / 10000) 6"
    by blast
  have tz: "?eur (normalize_currency (Some ''EUR'')) \<noteq> Some 0" by (simp add: e)
  from conversion_by_target [where conversion_rates = ?eur, OF nz p(1) p(3) d2 f2] nu tz
  have second: "conversion_successful
        (convert_currency_amount (Some 100) (Some ''JPY'') (Some ''EUR'') ?eur)
   \<and> converted_amount
        (convert_currency_amount (Some 100) (Some ''JPY'') (Some ''EUR'') ?eur)
       = Some (py_round (100 * (67 / 10000 / (118 / 100))) 2)
   \<and> conversion_rate
        (convert_currency_amount (Some 100) (Some ''JPY'') (Some ''EUR'') ?eur)
       = py_round (67 / 10000 / (118 / 100)) 6"
    by (simp only: t2 option.case) blast
  from first have first': "conversion_successful
        (convert_currency_amount (Some 100) (Some ''JPY'') (Some ''USD'') ?usd)
   \<and> converted_amount
        (convert_currency_amount (Some 100) (Some ''JPY'') (Some ''USD'') ?usd)
       = Some (67 / 100)
   \<and> conversion_rate
        (convert_currency_amount (Some 100) (Some ''JPY'') (Some ''USD'') ?usd)
       = 67 / 10000"
    by (simp only: r2 r6)
  from first' second nz p d1 d2 f1 f2 t2 nu u show ?thesis by blast
qed

section \<open>Properties of \<^verbatim>\<open>get_currency_conversion_rates\<close>\<close>

subsection \<open>The fallback path\<close>

lemma rescale_rates_fold:
  "base_rate \<noteq> 0 \<Longrightarrow>
     rescale_rates base_rate items acc =
       Inr (fold (\<lambda>(currency, usd_rate) m. m(currency \<mapsto> usd_rate / base_rate)) items acc)"
  by (induction items arbitrary: acc) (auto simp: py_truediv_def)

lemma fallback_get_nonzero: "fallback_get currency \<noteq> 0"
  by (simp add: fallback_get_def fallback_rates_def)

lemma use_fallback_rates_usd:
  "use_fallback_rates ''USD'' = Inr (map_of fallback_rates)"
  by (simp add: use_fallback_rates_def)

lemma use_fallback_rates_other:
  assumes "base_currency \<noteq> ''USD''"
  shows "use_fallback_rates base_currency =
           Inr (\<lambda>c. map_option (\<lambda>r. r / fallback_get base_currency) (map_of fallback_rates c))"
proof -
  have "fold (\<lambda>(currency, usd_rate) m. m(currency \<mapsto> usd_rate / b)) fallback_rates Map.empty
          = (\<lambda>c. map_option (\<lambda>r. r / b) (map_of fallback_rates c))" for b :: rat
    by (rule ext) (simp add: fallback_rates_def)
  with assms show ?thesis
    by (simp add: use_fallback_rates_def rescale_rates_fold [OF fallback_get_nonzero])
qed

lemma use_fallback_rates_nonempty:
  "\<exists>t. use_fallback_rates base_currency = Inr t \<and> t ''USD'' \<noteq> None"
  by (cases "base_currency = ''USD''")
     (simp_all add: use_fallback_rates_usd use_fallback_rates_other fallback_rates_def)

lemma fetch_live_rates_base:
  "fetch_live_rates base_currency outcome = Inr (Some t) \<Longrightarrow> t base_currency = Some 1"
  by (auto simp: fetch_live_rates_def split: fetch_outcome.splits py_value.splits if_splits sum.splits)

lemma use_fallback_rates_known_base:
  assumes "map_of fallback_rates base_currency = Some b"
    and "use_fallback_rates base_currency = Inr t"
  shows "t base_currency = Some 1"
proof (cases "base_currency = ''USD''")
  case True
  with assms show ?thesis by (auto simp: use_fallback_rates_usd fallback_rates_def)
next
  case False
  from assms(1) have "fallback_get base_currency = b" by (simp add: fallback_get_def)
  moreover have "b \<noteq> 0" using fallback_get_nonzero [of base_currency] calculation by simp
  ultimately show ?thesis using assms False
    by (auto simp: use_fallback_rates_other)
qed

lemma eur_fallback_table:
  "\<exists>t. get_currency_conversion_rates ''EUR'' (UrlError e) = Inr t
       \<and> t ''EUR'' = Some 1 \<and> t ''USD'' = Some (100 / 118) \<and> t ''JPY'' = Some (67 / 11800)"
  by (simp add: get_currency_conversion_rates_def fetch_live_rates_def
                use_fallback_rates_def fallback_get_def fallback_rates_def py_truediv_def)

subsection \<open>A table is always returned\<close>

text \<open>
  For every outcome of the rate request and every base currency,
  \<^verbatim>\<open>get_currency_conversion_rates\<close> raises nothing and returns a table that is not
  empty. Whenever the live path fails (the \<^verbatim>\<open>try\<close> block raises, or it is left without
  a return), the table is the static one: as it is for the base \<^verbatim>\<open>USD\<close>, and with each
  entry divided by \<^verbatim>\<open>fallback_rates.get(base_currency, 1.0)\<close> otherwise. That divisor
  is the static rate of the base currency only when the static table knows the base.
\<close>

lemma rates_always_returned:
  "\<exists>t. get_currency_conversion_rates base_currency outcome = Inr t
       \<and> t \<noteq> Map.empty
       \<and> (fetch_live_rates base_currency outcome = Inr None
            \<or> (\<exists>e. fetch_live_rates base_currency outcome = Inl e) \<longrightarrow>
          (base_currency = ''USD'' \<longrightarrow> t = map_of fallback_rates)
          \<and> (base_currency \<noteq> ''USD'' \<longrightarrow>
               t = (\<lambda>c. map_option (\<lambda>r. r / fallback_get base_currency)
                          (map_of fallback_rates c))))"
proof (cases "fetch_live_rates base_currency outcome")
  case (Inl e)
  obtain t where t: "use_fallback_rates base_currency = Inr t" "t ''USD'' \<noteq> None"
    using use_fallback_rates_nonempty by blast
  from t(2) have "t \<noteq> Map.empty" by auto
  with Inl t(1) show ?thesis
    by (auto simp: get_currency_conversion_rates_def use_fallback_rates_usd
                   use_fallback_rates_other)
next
  case (Inr live)
  show ?thesis
  proof (cases live)
    case None
    obtain t where t: "use_fallback_rates base_currency = Inr t" "t ''USD'' \<noteq> None"
      using use_fallback_rates_nonempty by blast
    from t(2) have "t \<noteq> Map.empty" by auto
    with Inr None t(1) show ?thesis
      by (auto simp: get_currency_conversion_rates_def use_fallback_rates_usd
                     use_fallback_rates_other)
  next
    case (Some t)
    with Inr have "t base_currency = Some 1" by (simp add: fetch_live_rates_base)
    then have "t \<noteq> Map.empty" by auto
    with Inr Some show ?thesis
      by (simp add: get_currency_conversion_rates_def)
  qed
qed

subsection \<open>The fallback table of a base currency the static table lacks\<close>


subsection \<open>The entry of the base currency\<close>

text \<open>
  Claim C3 at a failing input. The live path ends with
  \<^verbatim>\<open>conversion_rates[base_currency] = 1.0\<close> (lemma \<open>fetch_live_rates_base\<close>), and the
  fallback path gives the base currency the rate 1.0 when the static table knows it (lemma
  \<open>use_fallback_rates_known_base\<close>). For a base currency the static table does not know,
  such as the Mexican peso, the fallback path divides by the default 1.0 and returns the
  USD-based table unchanged, without an entry for the base currency.
\<close>

theorem fallback_table_lacks_unknown_base:
  "\<exists>t. get_currency_conversion_rates ''MXN'' (UrlError ''timed out'') = Inr t
       \<and> t ''MXN'' = None
       \<and> t ''USD'' = Some 1
       \<and> t ''EUR'' = Some (118 / 100)"
  by (simp add: get_currency_conversion_rates_def fetch_live_rates_def
                use_fallback_rates_other fallback_get_def fallback_rates_def)

section \<open>Properties of \<^verbatim>\<open>query_opportunity_data\<close>\<close>

subsection \<open>The keys of the three documents\<close>

lemma keys_not_found_data:
  "keys (not_found_data opportunity_id target_currency now) = common_keys @ error_keys"
  by (simp add: keys_def not_found_data_def common_keys_def error_keys_def)

lemma keys_error_data:
  "keys (error_data opportunity_id target_currency now error_type error_message)
     = common_keys @ error_keys"
  by (simp add: keys_def error_data_def common_keys_def error_keys_def)

lemma keys_found_data:
  "found_data opportunity amount0 currency0 currency_conversion now = Inr data
     \<Longrightarrow> keys data = common_keys"
  by (auto simp: found_data_def and_then_def keys_def common_keys_def split: sum.splits)

lemma query_body_found:
  assumes "query_body (QueryReturned result) opportunity_id target_currency fetched now = Inr data"
    and "totalSize result \<noteq> 0"
  shows "keys data = common_keys"
  using assms
  by (auto simp: query_body_def and_then_def Let_def keys_found_data
           split: list.splits sum.splits)

text \<open>
  Claim C1 as stated fails: the document of an opportunity that was found has no
  \<^verbatim>\<open>error_status\<close> and no \<^verbatim>\<open>error_message\<close> key. The callers rely on it, they
  recognise an error document by \<^verbatim>\<open>data.get('error_status') is not None\<close>.
\<close>

theorem found_document_keys_counterexample:
  "keys (query_opportunity_data
           (QueryReturned \<lparr>totalSize = 1, records = [example_opportunity]\<rparr>)
           ''006Vv00000ABC123'' ''USD'' (UrlError ''unreachable'') ''2024-07-01T00:00:00'')
     \<noteq> keys (query_opportunity_data
                (QueryReturned \<lparr>totalSize = 0, records = []\<rparr>)
                ''006Vv00000ABC123'' ''USD'' (UrlError ''unreachable'') ''2024-07-01T00:00:00'')
   \<and> map_of (query_opportunity_data
               (QueryReturned \<lparr>totalSize = 1, records = [example_opportunity]\<rparr>)
               ''006Vv00000ABC123'' ''USD'' (UrlError ''unreachable'') ''2024-07-01T00:00:00'')
         ''source'' = Some (PStr ''salesforce_opportunity_integration'')
   \<and> map_of (query_opportunity_data
               (QueryReturned \<lparr>totalSize = 1, records = [example_opportunity]\<rparr>)
               ''006Vv00000ABC123'' ''USD'' (UrlError ''unreachable'') ''2024-07-01T00:00:00'')
         ''error_status'' = None
   \<and> map_of (query_opportunity_data
               (QueryReturned \<lparr>totalSize = 1, records = [example_opportunity]\<rparr>)
               ''006Vv00000ABC123'' ''USD'' (UrlError ''unreachable'') ''2024-07-01T00:00:00'')
         ''error_message'' = None
   \<and> map_of (query_opportunity_data
               (QueryReturned \<lparr>totalSize = 0, records = []\<rparr>)
               ''006Vv00000ABC123'' ''USD'' (UrlError ''unreachable'') ''2024-07-01T00:00:00'')
         ''error_status'' = Some (PStr ''OPPORTUNITY_NOT_FOUND'')"
  by code_simp

text \<open>
  Claim C1, amended. The not-found document and the error document, whatever exception
  ended the \<^verbatim>\<open>try\<close> block, have the same twenty-six keys: the twenty-four common keys
  followed by \<^verbatim>\<open>error_status\<close> and \<^verbatim>\<open>error_message\<close>. The document of an opportunity
  that was found has exactly the twenty-four common keys, without \<^verbatim>\<open>error_status\<close> and
  \<^verbatim>\<open>error_message\<close>.
\<close>

theorem document_keys:
  "(totalSize result = 0 \<longrightarrow>
      keys (query_opportunity_data (QueryReturned result) opportunity_id target_currency
              fetched now) = common_keys @ error_keys)
   \<and> ((\<exists>e. query_body queried opportunity_id target_currency fetched now = Inl e) \<longrightarrow>
        keys (query_opportunity_data queried opportunity_id target_currency fetched now)
          = common_keys @ error_keys)
   \<and> (totalSize result \<noteq> 0
        \<and> (\<exists>data. query_body (QueryReturned result) opportunity_id target_currency
                     fetched now = Inr data) \<longrightarrow>
        keys (query_opportunity_data (QueryReturned result) opportunity_id target_currency
                fetched now) = common_keys)"
proof (intro conjI impI)
  assume "totalSize result = 0"
  then show "keys (query_opportunity_data (QueryReturned result) opportunity_id
                     target_currency fetched now) = common_keys @ error_keys"
    by (simp add: query_opportunity_data_def query_body_def keys_not_found_data)
next
  assume "\<exists>e. query_body queried opportunity_id target_currency fetched now = Inl e"
  then show "keys (query_opportunity_data queried opportunity_id target_currency fetched now)
               = common_keys @ error_keys"
    by (auto simp: query_opportunity_data_def keys_error_data split: prod.splits)
next
  assume "totalSize result \<noteq> 0
        \<and> (\<exists>data. query_body (QueryReturned result) opportunity_id target_currency
                     fetched now = Inr data)"
  then show "keys (query_opportunity_data (QueryReturned result) opportunity_id
                     target_currency fetched now) = common_keys"
    by (auto simp: query_opportunity_data_def query_body_found)
qed

theorem document_keys_witness:
  "totalSize \<lparr>totalSize = 0, records = []\<rparr> = 0
   \<and> keys (query_opportunity_data (QueryReturned \<lparr>totalSize = 0, records = []\<rparr>)
             ''006Vv00000ABC123'' ''USD'' (UrlError ''unreachable'') ''2024-07-01T00:00:00'')
       = common_keys @ error_keys
   \<and> query_body (QueryRaised ''MALFORMED_QUERY: unexpected token'')
        ''006Vv00000ABC123'' ''USD'' (UrlError ''unreachable'') ''2024-07-01T00:00:00''
       = Inl ''MALFORMED_QUERY: unexpected token''
   \<and> keys (query_opportunity_data (QueryRaised ''MALFORMED_QUERY: unexpected token'')
             ''006Vv00000ABC123'' ''USD'' (UrlError ''unreachable'') ''2024-07-01T00:00:00'')
       = common_keys @ error_keys
   \<and> totalSize \<lparr>totalSize = 1, records = [example_opportunity]\<rparr> \<noteq> 0
   \<and> (\<exists>data. query_body
                 (QueryReturned \<lparr>totalSize = 1, records = [example_opportunity]\<rparr>)
                 ''006Vv00000ABC123'' ''USD'' (UrlError ''unreachable'')
                 ''2024-07-01T00:00:00'' = Inr data)
   \<and> keys (query_opportunity_data
             (QueryReturned \<lparr>totalSize = 1, records = [example_opportunity]\<rparr>)
             ''006Vv00000ABC123'' ''USD'' (UrlError ''unreachable'') ''2024-07-01T00:00:00'')
       = common_keys"
proof -
  let ?none = "\<lparr>totalSize = 0, records = []\<rparr>"
  let ?one = "\<lparr>totalSize = 1, records = [example_opportunity]\<rparr>"
  let ?raised = "QueryRaised ''MALFORMED_QUERY: unexpected token''"
  let ?id = "''006Vv00000ABC123''"
  let ?f = "UrlError ''unreachable''"
  let ?now = "''2024-07-01T00:00:00''"
  have z: "totalSize ?none = 0" by simp
  have r: "query_body ?raised ?id ''USD'' ?f ?now = Inl ''MALFORMED_QUERY: unexpected token''"
    by (simp add: query_body_def)
  have n: "totalSize ?one \<noteq> 0" by simp
  have "case query_body (QueryReturned ?one) ?id ''USD'' ?f ?now of
          Inl e \<Rightarrow> False | Inr data \<Rightarrow> True"
    by code_simp
  then have b: "\<exists>data. query_body (QueryReturned ?one) ?id ''USD'' ?f ?now = Inr data"
    by (simp split: sum.splits)
  from document_keys [of ?none ?id "''USD''" ?f ?now ?raised] z r
  have k1: "keys (query_opportunity_data (QueryReturned ?none) ?id ''USD'' ?f ?now)
              = common_keys @ error_keys"
    and k2: "keys (query_opportunity_data ?raised ?id ''USD'' ?f ?now)
              = common_keys @ error_keys"
    by blast+
  from document_keys [of ?one ?id "''USD''" ?f ?now ?raised] n b
  have k3: "keys (query_opportunity_data (QueryReturned ?one) ?id ''USD'' ?f ?now)
              = common_keys"
    by blast
  from z r n b k1 k2 k3 show ?thesis by blast
qed

subsection \<open>The classification of a query exception\<close>

lemma classify_error_status:
  "fst (classify_error error_str) \<in>
     {''CUSTOM_FIELD_ERROR'', ''INVALID_FIELD_ERROR'', ''MALFORMED_QUERY_ERROR'',
      ''ACCESS_ERROR'', ''QUERY_ERROR''}"
  by (simp add: classify_error_def)

lemma error_status_of_error_document:
  assumes "query_body queried opportunity_id target_currency fetched now = Inl error_str"
  shows "map_of (query_opportunity_data queried opportunity_id target_currency fetched now)
           ''error_status'' = Some (PStr (fst (classify_error error_str)))"
proof (cases "classify_error error_str")
  case (Pair error_type error_message)
  with assms show ?thesis
    by (simp add: query_opportunity_data_def error_data_def)
qed

text \<open>
  The first half of claim C8 fails where the message also names a missing custom column:
  the test for \<^verbatim>\<open>No such column\<close> together with \<^verbatim>\<open>__c\<close> comes first in the chain.
\<close>

theorem invalid_field_custom_column_counterexample:
  "contains ''INVALID_FIELD''
     ''INVALID_FIELD: No such column Region__c on entity Opportunity''
   \<and> map_of (query_opportunity_data
               (QueryRaised ''INVALID_FIELD: No such column Region__c on entity Opportunity'')
               ''006Vv00000ABC123'' ''USD'' (UrlError ''unreachable'') ''2024-07-01T00:00:00'')
        ''error_status'' = Some (PStr ''CUSTOM_FIELD_ERROR'')"
  by code_simp

text \<open>
  Claim C8, amended. For every exception that ends the \<^verbatim>\<open>try\<close> block, with message
  \<open>error_str\<close>: when the message contains \<^verbatim>\<open>INVALID_FIELD\<close> and does not contain both
  \<^verbatim>\<open>No such column\<close> and \<^verbatim>\<open>__c\<close>, the error document has \<^verbatim>\<open>error_status\<close>
  \<^verbatim>\<open>INVALID_FIELD_ERROR\<close>; the classification is total, every message gets one of the
  five categories; and a message that matches none of the four patterns gets the generic
  category \<^verbatim>\<open>QUERY_ERROR\<close>.
\<close>

theorem error_classification:
  assumes "query_body queried opportunity_id target_currency fetched now = Inl error_str"
  shows "(contains ''INVALID_FIELD'' error_str
          \<and> \<not> (contains ''No such column'' error_str \<and> contains ''__c'' error_str) \<longrightarrow>
            map_of (query_opportunity_data queried opportunity_id target_currency fetched now)
              ''error_status'' = Some (PStr ''INVALID_FIELD_ERROR''))
       \<and> (\<exists>status \<in> {''CUSTOM_FIELD_ERROR'', ''INVALID_FIELD_ERROR'',
                        ''MALFORMED_QUERY_ERROR'', ''ACCESS_ERROR'', ''QUERY_ERROR''}.
            map_of (query_opportunity_data queried opportunity_id target_currency fetched now)
              ''error_status'' = Some (PStr status))
       \<and> (\<not> (contains ''No such column'' error_str \<and> contains ''__c'' error_str)
          \<and> \<not> contains ''INVALID_FIELD'' error_str
          \<and> \<not> contains ''MALFORMED_QUERY'' error_str
          \<and> \<not> contains ''INSUFFICIENT_ACCESS'' error_str \<longrightarrow>
            map_of (query_opportunity_data queried opportunity_id target_currency fetched now)
              ''error_status'' = Some (PStr ''QUERY_ERROR''))"
proof (intro conjI impI)
  assume "contains ''INVALID_FIELD'' error_str
          \<and> \<not> (contains ''No such column'' error_str \<and> contains ''__c'' error_str)"
  then have "fst (classify_error error_str) = ''INVALID_FIELD_ERROR''"
    by (auto simp: classify_error_def)
  with error_status_of_error_document [OF assms]
  show "map_of (query_opportunity_data queried opportunity_id target_currency fetched now)
          ''error_status'' = Some (PStr ''INVALID_FIELD_ERROR'')"
    by simp
next
  from error_status_of_error_document [OF assms] classify_error_status [of error_str]
  show "\<exists>status \<in> {''CUSTOM_FIELD_ERROR'', ''INVALID_FIELD_ERROR'',
                    ''MALFORMED_QUERY_ERROR'', ''ACCESS_ERROR'', ''QUERY_ERROR''}.
          map_of (query_opportunity_data queried opportunity_id target_currency fetched now)
            ''error_status'' = Some (PStr status)"
    by blast
next
  assume "\<not> (contains ''No such column'' error_str \<and> contains ''__c'' error_str)
          \<and> \<not> contains ''INVALID_FIELD'' error_str
          \<and> \<not> contains ''MALFORMED_QUERY'' error_str
          \<and> \<not> contains ''INSUFFICIENT_ACCESS'' error_str"
  then have "fst (classify_error error_str) = ''QUERY_ERROR''"
    by (auto simp: classify_error_def)
  with error_status_of_error_document [OF assms]
  show "map_of (query_opportunity_data queried opportunity_id target_currency fetched now)
          ''error_status'' = Some (PStr ''QUERY_ERROR'')"
    by simp
qed

theorem error_classification_witness:
  "query_body (QueryRaised ''INVALID_FIELD: No such column Foo on entity Opportunity'')
     ''006Vv00000ABC123'' ''USD'' (UrlError ''unreachable'') ''2024-07-01T00:00:00''
     = Inl ''INVALID_FIELD: No such column Foo on entity Opportunity''
   \<and> contains ''INVALID_FIELD'' ''INVALID_FIELD: No such column Foo on entity Opportunity''
   \<and> \<not> (contains ''No such column'' ''INVALID_FIELD: No such column Foo on entity Opportunity''
         \<and> contains ''__c'' ''INVALID_FIELD: No such column Foo on entity Opportunity'')
   \<and> map_of (query_opportunity_data
               (QueryRaised ''INVALID_FIELD: No such column Foo on entity Opportunity'')
               ''006Vv00000ABC123'' ''USD'' (UrlError ''unreachable'') ''2024-07-01T00:00:00'')
        ''error_status'' = Some (PStr ''INVALID_FIELD_ERROR'')
   \<and> query_body (QueryRaised ''Session expired'')
        ''006Vv00000ABC123'' ''USD'' (UrlError ''unreachable'') ''2024-07-01T00:00:00''
       = Inl ''Session expired''
   \<and> \<not> (contains ''No such column'' ''Session expired'' \<and> contains ''__c'' ''Session expired'')
   \<and> \<not> contains ''INVALID_FIELD'' ''Session expired''
   \<and> \<not> contains ''MALFORMED_QUERY'' ''Session expired''
   \<and> \<not> contains ''INSUFFICIENT_ACCESS'' ''Session expired''
   \<and> map_of (query_opportunity_data (QueryRaised ''Session expired'')
               ''006Vv00000ABC123'' ''USD'' (UrlError ''unreachable'') ''2024-07-01T00:00:00'')
        ''error_status'' = Some (PStr ''QUERY_ERROR'')"
proof -
  let ?m1 = "''INVALID_FIELD: No such column Foo on entity Opportunity''"
  let ?m2 = "''Session expired''"
  let ?id = "''006Vv00000ABC123''"
  let ?f = "UrlError ''unreachable''"
  let ?now = "''2024-07-01T00:00:00''"
  have b1: "query_body (QueryRaised ?m1) ?id ''USD'' ?f ?now = Inl ?m1"
    by (simp add: query_body_def)
  have b2: "query_body (QueryRaised ?m2) ?id ''USD'' ?f ?now = Inl ?m2"
    by (simp add: query_body_def)
  have h1: "contains ''INVALID_FIELD'' ?m1
            \<and> \<not> (contains ''No such column'' ?m1 \<and> contains ''__c'' ?m1)"
    by code_simp
  have h2: "\<not> (contains ''No such column'' ?m2 \<and> contains ''__c'' ?m2)
            \<and> \<not> contains ''INVALID_FIELD'' ?m2
            \<and> \<not> contains ''MALFORMED_QUERY'' ?m2
            \<and> \<not> contains ''INSUFFICIENT_ACCESS'' ?m2"
    by code_simp
  from error_classification [OF b1] h1
  have s1: "map_of (query_opportunity_data (QueryRaised ?m1) ?id ''USD'' ?f ?now)
              ''error_status'' = Some (PStr ''INVALID_FIELD_ERROR'')"
    by blast
  from error_classification [OF b2] h2
  have s2: "map_of (query_opportunity_data (QueryRaised ?m2) ?id ''USD'' ?f ?now)
              ''error_status'' = Some (PStr ''QUERY_ERROR'')"
    by blast
  from b1 b2 h1 h2 s1 s2 show ?thesis by blast
qed

section \<open>Properties of \<^verbatim>\<open>extract_opportunity_id\<close>\<close>

subsection \<open>Searching, and what the groups can be\<close>

lemma re_search_None_iff:
  "re_search m s = None \<longleftrightarrow> (\<forall>i \<le> length s. m (drop i s) = None)"
proof (induction s)
  case Nil
  then show ?case by simp
next
  case (Cons c cs)
  have "(\<forall>i \<le> Suc (length cs). m (drop i (c # cs)) = None)
          \<longleftrightarrow> m (c # cs) = None \<and> (\<forall>i \<le> length cs. m (drop i cs) = None)"
  proof
    assume h: "\<forall>i \<le> Suc (length cs). m (drop i (c # cs)) = None"
    from h have "m (drop 0 (c # cs)) = None" by blast
    moreover have "m (drop i cs) = None" if "i \<le> length cs" for i
      using h that by (auto dest: spec [where x = "Suc i"])
    ultimately show "m (c # cs) = None \<and> (\<forall>i \<le> length cs. m (drop i cs) = None)"
      by simp
  next
    assume h: "m (c # cs) = None \<and> (\<forall>i \<le> length cs. m (drop i cs) = None)"
    show "\<forall>i \<le> Suc (length cs). m (drop i (c # cs)) = None"
    proof (intro allI impI)
      fix i assume "i \<le> Suc (length cs)"
      with h show "m (drop i (c # cs)) = None" by (cases i) auto
    qed
  qed
  with Cons show ?case by (simp split: option.splits)
qed

lemma re_search_Some:
  "re_search m s = Some r \<Longrightarrow> \<exists>i \<le> length s. m (drop i s) = Some r"
proof (induction s)
  case Nil
  then show ?case by simp
next
  case (Cons c cs)
  show ?case
  proof (cases "m (c # cs)")
    case None
    with Cons obtain i where "i \<le> length cs" "m (drop i cs) = Some r" by auto
    then have "Suc i \<le> length (c # cs) \<and> m (drop (Suc i) (c # cs)) = Some r" by simp
    then show ?thesis by blast
  next
    case (Some r')
    with Cons.prems have "m (drop 0 (c # cs)) = Some r" by simp
    then show ?thesis by blast
  qed
qed

lemma run_reaches_lower_bound:
  "12 \<le> length (take 15 xs) \<longleftrightarrow> 12 \<le> length xs"
  by auto

lemma standard_pattern_None_iff:
  "standard_pattern s = None \<longleftrightarrow>
     \<not> (take 3 s = ''006'' \<and> 12 \<le> length (takeWhile is_alnum (drop 3 s)))"
  by (auto simp: standard_pattern_def match_here_def Let_def numeral_3_eq_3)

lemma standard_pattern_prefix:
  "standard_pattern s = Some r \<Longrightarrow> take 3 r = ''006''"
  by (auto simp: standard_pattern_def match_here_def Let_def split: if_splits)

lemma takeWhile_three:
  assumes "take 3 (takeWhile P s) = [a, b, c]"
  shows "take 3 s = [a, b, c] \<and> takeWhile P s = [a, b, c] @ takeWhile P (drop 3 s)"
proof (cases s)
  case Nil
  with assms show ?thesis by simp
next
  case s1: (Cons x s')
  show ?thesis
  proof (cases s')
    case Nil
    with assms s1 show ?thesis by (simp split: if_splits)
  next
    case s2: (Cons y s'')
    show ?thesis
    proof (cases s'')
      case Nil
      with assms s1 s2 show ?thesis by (simp split: if_splits)
    next
      case (Cons z rest)
      with assms s1 s2 show ?thesis by (simp split: if_splits)
    qed
  qed
qed

lemma group_with_prefix:
  assumes "match_here literal 15 18 s = Some g" and "take 3 g = ''006''"
  shows "take 3 (drop (length literal) s) = ''006''
       \<and> 12 \<le> length (takeWhile is_alnum (drop (length literal + 3) s))"
proof -
  let ?rest = "drop (length literal) s"
  from assms(1) have g: "g = take 18 (takeWhile is_alnum ?rest)" and len: "15 \<le> length g"
    by (auto simp: match_here_def Let_def split: if_splits)
  from assms(2) g have "take 3 (takeWhile is_alnum ?rest) = ''006''"
    by (simp add: min_def)
  from takeWhile_three [OF this]
  have p: "take 3 ?rest = ''006''"
    and r: "takeWhile is_alnum ?rest = ''006'' @ takeWhile is_alnum (drop 3 ?rest)"
    by simp_all
  from len g have "15 \<le> length (takeWhile is_alnum ?rest)" by simp
  moreover have "length (takeWhile is_alnum ?rest)
                   = 3 + length (takeWhile is_alnum (drop 3 ?rest))"
    by (subst r) simp
  ultimately have "12 \<le> length (takeWhile is_alnum (drop 3 ?rest))"
    by linarith
  with p show ?thesis by (simp add: add.commute)
qed

lemma prefix_runs_too_short_iff:
  "prefix_runs_too_short url \<longleftrightarrow>
     (\<forall>i < length url. take 3 (drop i url) = ''006'' \<longrightarrow>
        length (takeWhile is_alnum (drop (i + 3) url)) < 12)"
  by (auto simp: prefix_runs_too_short_def list_all_iff)

lemma no_standard_match:
  assumes "prefix_runs_too_short url"
  shows "re_search standard_pattern url = None"
proof -
  have "standard_pattern (drop i url) = None" if "i \<le> length url" for i
  proof (cases "i < length url")
    case True
    with assms show ?thesis
      by (auto simp: prefix_runs_too_short_iff standard_pattern_None_iff add.commute)
  next
    case False
    with that have "drop i url = []" by simp
    then show ?thesis by (simp add: standard_pattern_None_iff)
  qed
  then show ?thesis by (simp add: re_search_None_iff)
qed

lemma group_never_opportunity:
  assumes "prefix_runs_too_short url"
    and "re_search (match_here literal 15 18) url = Some g"
  shows "take 3 g \<noteq> ''006''"
proof
  assume p: "take 3 g = ''006''"
  from re_search_Some [OF assms(2)]
  obtain i where i: "i \<le> length url" "match_here literal 15 18 (drop i url) = Some g"
    by blast
  from group_with_prefix [OF i(2) p]
  have t: "take 3 (drop (i + length literal) url) = ''006''"
    and r: "12 \<le> length (takeWhile is_alnum (drop (i + length literal + 3) url))"
    by (simp_all add: add.commute add.left_commute)
  from t have "i + length literal < length url"
    by (cases "i + length literal < length url") auto
  with assms(1) t have "length (takeWhile is_alnum (drop (i + length literal + 3) url)) < 12"
    by (simp add: prefix_runs_too_short_iff)
  with r show False by simp
qed

subsection \<open>Inputs without an opportunity id\<close>

text \<open>
  Claim C9 as stated fails for a run that is too long: the pattern has no boundary after
  the repetition. In the input below the only prefix is followed by 16 alphanumeric
  characters, a total of 19 and so outside the bounds 15 and 18, and the match takes the
  first 18 of them.
\<close>

theorem overlong_run_counterexample:
  "spec_no_valid_id ''/lightning/r/Opportunity/006Vv00000ABC123XYZ/view''
   \<and> length ''006Vv00000ABC123XYZ'' = 19
   \<and> extract_opportunity_id ''/lightning/r/Opportunity/006Vv00000ABC123XYZ/view''
       = Some ''006Vv00000ABC123XY''"
  by code_simp

text \<open>
  Claim C9, amended. For every input in which each occurrence of the prefix \<^verbatim>\<open>006\<close> is
  followed by fewer than 12 alphanumeric characters (an input without the prefix among
  them), \<^verbatim>\<open>extract_opportunity_id\<close> returns \<^verbatim>\<open>None\<close>; the two path patterns cannot
  rescue such an input.
\<close>

theorem short_runs_give_no_id:
  assumes "prefix_runs_too_short url"
  shows "extract_opportunity_id url = None"
proof -
  have s: "re_search standard_pattern url = None"
    by (rule no_standard_match [OF assms])
  have p: "re_search url_path_pattern url = Some g \<Longrightarrow> take 3 g \<noteq> ''006''" for g
    using group_never_opportunity [OF assms, of "''/Opportunity/''" g]
    by (simp add: url_path_pattern_def [abs_def])
  have e: "re_search url_encoded_pattern url = Some g \<Longrightarrow> take 3 g \<noteq> ''006''" for g
    using group_never_opportunity [OF assms, of "''Opportunity%2F''" g]
    by (simp add: url_encoded_pattern_def [abs_def])
  show ?thesis
    using s p e by (auto simp: extract_opportunity_id_def split: option.splits)
qed

theorem short_runs_give_no_id_witness:
  "prefix_runs_too_short ''https://example.my.salesforce.com/001Vv00000ABC123''
   \<and> extract_opportunity_id ''https://example.my.salesforce.com/001Vv00000ABC123'' = None
   \<and> prefix_runs_too_short ''/lightning/r/Opportunity/006Vv00000A/view''
   \<and> extract_opportunity_id ''/lightning/r/Opportunity/006Vv00000A/view'' = None"
proof -
  have a: "prefix_runs_too_short ''https://example.my.salesforce.com/001Vv00000ABC123''"
    by code_simp
  have b: "prefix_runs_too_short ''/lightning/r/Opportunity/006Vv00000A/view''"
    by code_simp
  from short_runs_give_no_id [OF a] short_runs_give_no_id [OF b] a b
  show ?thesis by blast
qed

text \<open>The condition is also necessary: any other input yields an id.\<close>

lemma long_run_gives_id:
  assumes "\<not> prefix_runs_too_short url"
  shows "\<exists>opportunity_id. extract_opportunity_id url = Some opportunity_id"
proof -
  from assms obtain i where i: "i < length url" "take 3 (drop i url) = ''006''"
    "12 \<le> length (takeWhile is_alnum (drop (i + 3) url))"
    by (auto simp: prefix_runs_too_short_iff not_less)
  then have "standard_pattern (drop i url) \<noteq> None"
    by (simp add: standard_pattern_None_iff add.commute)
  with i(1) have "\<not> (\<forall>j \<le> length url. standard_pattern (drop j url) = None)"
    by (auto intro!: exI [of _ i])
  then have "re_search standard_pattern url \<noteq> None"
    by (simp only: re_search_None_iff not_False_eq_True)
  then obtain r where r: "re_search standard_pattern url = Some r" by auto
  from re_search_Some [OF r] have "take 3 r = ''006''"
    by (auto dest: standard_pattern_prefix)
  with r show ?thesis by (simp add: extract_opportunity_id_def)
qed

end
